theory Spec2Isabelle
  imports Complex_Main "HOL-Library.Product_Lexorder"
begin

section \<open>Pricing and discount engine of the order and discount services\<close>

text \<open>
  The development embeds the pricing core of \<^verbatim>\<open>OrderService\<close>
  (\<^verbatim>\<open>src/services/orderService.js\<close>) and of \<^verbatim>\<open>DiscountService\<close>
  (the second class of \<^verbatim>\<open>unnamed/part_003\<close>).

  Conventions of the embedding:
  \<^item> a JavaScript number that carries money is an exact rational (\<^typ>\<open>rat\<close>); counters,
    quantities and timestamps are integers. Binary floating point is outside the model, and
    the money columns of the database are read as numbers.
  \<^item> a nullable column or an optional argument is an \<^typ>\<open>'a option\<close>; \<open>None\<close> is
    \<^verbatim>\<open>null\<close>/\<^verbatim>\<open>undefined\<close>.
  \<^item> a table is the list of its rows; \<^verbatim>\<open>findUnique\<close>/\<^verbatim>\<open>findFirst\<close> is
    \<^const>\<open>find\<close>, \<^verbatim>\<open>findMany\<close> is \<^const>\<open>filter\<close> followed by the
    \<^verbatim>\<open>orderBy\<close> sort, \<^verbatim>\<open>count\<close> is the length of the filtered list.
  \<^item> a \<^verbatim>\<open>throw\<close> is the \<open>Inl\<close> branch of a sum; the clock \<^verbatim>\<open>new Date()\<close> is the
    explicit argument \<open>now\<close>.
\<close>

subsection \<open>JavaScript truthiness and coercions\<close>

text \<open>\<^verbatim>\<open>if (x)\<close> on a nullable number: \<^verbatim>\<open>null\<close> and \<^verbatim>\<open>0\<close> are falsy.\<close>

definition truthyNum :: "rat option \<Rightarrow> bool" where
  "truthyNum x = (case x of None \<Rightarrow> False | Some v \<Rightarrow> v \<noteq> 0)"

definition truthyInt :: "int option \<Rightarrow> bool" where
  "truthyInt x = (case x of None \<Rightarrow> False | Some v \<Rightarrow> v \<noteq> 0)"

text \<open>\<^verbatim>\<open>if (s)\<close> on a nullable string: \<^verbatim>\<open>null\<close> and the empty string are falsy.\<close>

definition truthyStr :: "string option \<Rightarrow> bool" where
  "truthyStr x = (case x of None \<Rightarrow> False | Some s \<Rightarrow> s \<noteq> [])"

text \<open>The string of a truthy optional string; the empty string stands for a falsy one.\<close>

definition strOf :: "string option \<Rightarrow> string" where
  "strOf x = (case x of None \<Rightarrow> [] | Some s \<Rightarrow> s)"

text \<open>A nullable number inside a relational comparison or arithmetic: \<^verbatim>\<open>null\<close> is 0.\<close>

definition toNumber :: "rat option \<Rightarrow> rat" where
  "toNumber x = (case x of None \<Rightarrow> 0 | Some v \<Rightarrow> v)"

definition toNumberInt :: "int option \<Rightarrow> int" where
  "toNumberInt x = (case x of None \<Rightarrow> 0 | Some v \<Rightarrow> v)"

text \<open>
  \<^verbatim>\<open>parseFloat(x.toFixed(2))\<close> (and \<^verbatim>\<open>Number(x.toFixed(2))\<close>): the nearest multiple of
  1/100, a tie going away from zero.
\<close>

definition toFixed2 :: "rat \<Rightarrow> rat" where
  "toFixed2 x =
     (if x < 0 then - (of_int \<lfloor>(- x) * 100 + 1 / 2\<rfloor> / 100)
      else of_int \<lfloor>x * 100 + 1 / 2\<rfloor> / 100)"

text \<open>
  \<^verbatim>\<open>String.prototype.trim\<close> and \<^verbatim>\<open>toLowerCase\<close> for strings of ASCII characters
  (tab, line feed, vertical tab, form feed, carriage return and space are the white space).
  The white space and the case mappings of Unicode beyond ASCII are not modelled: the
  statements about normalised strings below are made for ASCII strings only.
\<close>

definition asciiString :: "string \<Rightarrow> bool" where
  "asciiString s = (\<forall>c \<in> set s. of_char c < (128::nat))"

definition isWhiteSpace :: "char \<Rightarrow> bool" where
  "isWhiteSpace c = (c \<in> set [CHR 0x09, CHR 0x0A, CHR 0x0B, CHR 0x0C, CHR 0x0D, CHR 0x20])"

definition trim :: "string \<Rightarrow> string" where
  "trim s = rev (dropWhile isWhiteSpace (rev (dropWhile isWhiteSpace s)))"

definition toLowerChar :: "char \<Rightarrow> char" where
  "toLowerChar c =
     (case map_of (zip ''ABCDEFGHIJKLMNOPQRSTUVWXYZ'' ''abcdefghijklmnopqrstuvwxyz'') c of
        None \<Rightarrow> c
      | Some l \<Rightarrow> l)"

definition toLowerCase :: "string \<Rightarrow> string" where
  "toLowerCase s = map toLowerChar s"

subsection \<open>Shipping cost: the two implementations\<close>

text \<open>
  \<^verbatim>\<open>OrderService.calculateShippingCost\<close> (orderService.js, lines 10--29): a falsy state
  gives 200; otherwise the state is trimmed and lower-cased before the \<^verbatim>\<open>switch\<close>.
\<close>

definition calculateShippingCost :: "string option \<Rightarrow> rat" where
  "calculateShippingCost state =
     (if \<not> truthyStr state then 200
      else let normalizedState = toLowerCase (trim (strOf state)) in
        if normalizedState = ''tamil nadu'' then 80
        else if normalizedState = ''kerala'' \<or> normalizedState = ''karnataka''
              \<or> normalizedState = ''andhra pradesh'' \<or> normalizedState = ''telangana'' then 100
        else 200)"

text \<open>
  \<^verbatim>\<open>DiscountService.calculateShippingCost\<close> (part_003, lines 2980--2991):
  \<^verbatim>\<open>shippingRates[state] || shippingRates['Other']\<close> on an object literal. The key is
  compared as it is given. A key that is no own property of the literal but a property of
  \<^verbatim>\<open>Object.prototype\<close> yields that (truthy, non-numeric) property.
\<close>

datatype jsValue = Num rat | NonNumeric

definition shippingRates :: "(string \<times> rat) list" where
  "shippingRates =
     [(''Tamil Nadu'', 80), (''Kerala'', 100), (''Karnataka'', 100),
      (''Andhra Pradesh'', 100), (''Telangana'', 100), (''Other'', 200)]"

definition objectPrototypeKeys :: "string list" where
  "objectPrototypeKeys =
     [''constructor'', ''hasOwnProperty'', ''isPrototypeOf'', ''propertyIsEnumerable'',
      ''toLocaleString'', ''toString'', ''valueOf'', ''__proto__'', ''__defineGetter__'',
      ''__defineSetter__'', ''__lookupGetter__'', ''__lookupSetter__'']"

definition discountServiceShippingCost :: "string option \<Rightarrow> jsValue" where
  "discountServiceShippingCost state =
     (case state of
        None \<Rightarrow> Num 200
      | Some s \<Rightarrow>
          (case map_of shippingRates s of
             Some r \<Rightarrow> Num r
           | None \<Rightarrow> if s \<in> set objectPrototypeKeys then NonNumeric else Num 200))"

subsection \<open>Data model\<close>

datatype discountType = PERCENTAGE | FIXED_AMOUNT | BUY_X_GET_Y

datatype priceType = QP_PERCENTAGE | QP_FIXED_AMOUNT

record product =
  p_id :: string
  p_name :: string
  p_normalPrice :: rat
  p_offerPrice :: "rat option"
  p_status :: string
  p_categoryId :: "string option"
  p_subcategoryId :: "string option"

record productVariant =
  v_id :: string
  v_stock :: int
  v_price :: "rat option"

record subcategoryQuantityPrice =
  qp_subcategoryId :: string
  qp_quantity :: int
  qp_priceType :: priceType
  qp_value :: rat
  qp_isActive :: bool

record discount =
  d_id :: string
  d_name :: string
  d_discountType :: discountType
  d_discountValue :: rat
  d_productId :: "string option"
  d_categoryId :: "string option"
  d_subcategoryId :: "string option"
  d_minQuantity :: "int option"
  d_userType :: "string option"
  d_minOrderAmount :: "rat option"
  d_maxDiscount :: "rat option"
  d_usageLimit :: "int option"
  d_perUserLimit :: int
  d_validFrom :: int
  d_validUntil :: int
  d_isActive :: bool
  d_usedCount :: int
  d_totalDiscounts :: rat
  d_createdAt :: int

record discountUsage =
  u_discountId :: string
  u_userId :: string
  u_orderId :: string
  u_discountAmount :: rat

record user =
  usr_id :: string
  usr_role :: string

text \<open>An order row together with its required \<^verbatim>\<open>user\<close> relation, as \<^verbatim>\<open>include\<close> loads it.\<close>

record order =
  o_id :: string
  o_user :: user
  o_subtotal :: rat
  o_discount :: rat
  o_totalAmount :: rat

record database =
  products :: "product list"
  productVariants :: "productVariant list"
  subcategoryQuantityPrices :: "subcategoryQuantityPrice list"
  discounts :: "discount list"
  discountUsages :: "discountUsage list"
  users :: "user list"
  orders :: "order list"

text \<open>The texts of the messages the services produce; each constructor is one literal.\<close>

datatype message =
    InvalidDiscountCode          \<comment> \<open>\<^verbatim>\<open>Invalid discount code\<close>\<close>
  | DiscountIsNotActive          \<comment> \<open>\<^verbatim>\<open>Discount is not active\<close>\<close>
  | DiscountNotYetValid          \<comment> \<open>\<^verbatim>\<open>Discount not yet valid\<close>\<close>
  | DiscountHasExpired           \<comment> \<open>\<^verbatim>\<open>Discount has expired\<close>\<close>
  | DiscountUsageLimitReached    \<comment> \<open>\<^verbatim>\<open>Discount usage limit reached\<close>\<close>
  | UserUsageLimitReached        \<comment> \<open>\<^verbatim>\<open>You have reached the usage limit for this discount\<close>\<close>
  | MinimumOrderAmountRequired rat  \<comment> \<open>\<^verbatim>\<open>Minimum order amount of (amount) required\<close>\<close>
  | ProductNotFound              \<comment> \<open>\<^verbatim>\<open>Product not found\<close>\<close>
  | ProductIdNotFound string     \<comment> \<open>\<^verbatim>\<open>Product (id) not found\<close>\<close>
  | OrderItemsRequired           \<comment> \<open>\<^verbatim>\<open>Order items are required and must be a non-empty array\<close>\<close>
  | InvalidOrderItem             \<comment> \<open>\<^verbatim>\<open>Invalid order item: productId and quantity are required\<close>\<close>
  | OrderProductNotFound string  \<comment> \<open>\<^verbatim>\<open>Product not found: (id)\<close>\<close>
  | ProductNotAvailable string   \<comment> \<open>\<^verbatim>\<open>Product (id) is not available for purchase\<close>\<close>
  | VariantNotFound string       \<comment> \<open>\<^verbatim>\<open>Product variant not found: (id)\<close>\<close>
  | InsufficientStock string int int  \<comment> \<open>\<^verbatim>\<open>Insufficient stock for variant ...\<close>\<close>
  | DiscountNotFound             \<comment> \<open>\<^verbatim>\<open>Discount not found\<close>\<close>
  | DiscountNotValidAtThisTime   \<comment> \<open>\<^verbatim>\<open>Discount is not valid at this time\<close>\<close>
  | DiscountAlreadyApplied       \<comment> \<open>\<^verbatim>\<open>Discount has already been applied to this order\<close>\<close>
  | OrderNotFound                \<comment> \<open>\<^verbatim>\<open>Order not found\<close>\<close>
  | NotEligible                  \<comment> \<open>\<^verbatim>\<open>You are not eligible for this discount\<close>\<close>
  | MinimumOrderAmountForDiscount rat  \<comment> \<open>\<^verbatim>\<open>Minimum order amount of (amount) required for this discount\<close>\<close>
  | TypeError                    \<comment> \<open>a \<^verbatim>\<open>TypeError\<close> of the runtime\<close>

text \<open>\<^verbatim>\<open>product.offerPrice || product.normalPrice\<close>\<close>

definition unitPriceOf :: "product \<Rightarrow> rat" where
  "unitPriceOf p = (if truthyNum (p_offerPrice p) then toNumber (p_offerPrice p) else p_normalPrice p)"

text \<open>\<^verbatim>\<open>prisma.discountUsage.count({ where: { discountId, userId } })\<close>\<close>

definition userUsageCount :: "database \<Rightarrow> string \<Rightarrow> string \<Rightarrow> int" where
  "userUsageCount db discountId userId =
     int (length (filter (\<lambda>u. u_discountId u = discountId \<and> u_userId u = userId) (discountUsages db)))"

subsection \<open>Quantity-tier pricing: \<^verbatim>\<open>OrderService.calculateItemQuantityPrice\<close>\<close>

record appliedRule =
  ar_quantity :: int
  ar_priceType :: priceType
  ar_value :: rat

record quantityPricing =
  originalPrice :: rat
  finalPrice :: rat
  totalSavings :: rat
  pricePerItem :: "rat option"
  hasDiscount :: bool
  appliedDiscount :: "appliedRule option"

text \<open>
  The query of lines 51--60: the active rules of the subcategory whose threshold is at most
  the quantity, by descending threshold.
\<close>

definition quantityPrices :: "database \<Rightarrow> string \<Rightarrow> int \<Rightarrow> subcategoryQuantityPrice list" where
  "quantityPrices db subcategoryId quantity =
     sort_key (\<lambda>r. - qp_quantity r)
       (filter (\<lambda>r. qp_subcategoryId r = subcategoryId \<and> qp_isActive r \<and> qp_quantity r \<le> quantity)
          (subcategoryQuantityPrices db))"

text \<open>The price a rule gives to the line (lines 68--76).\<close>

definition finalPriceForRule :: "rat \<Rightarrow> int \<Rightarrow> subcategoryQuantityPrice \<Rightarrow> rat" where
  "finalPriceForRule basePrice quantity priceRule =
     (if qp_priceType priceRule = QP_PERCENTAGE
      then (basePrice * of_int quantity) * (1 - qp_value priceRule / 100)
      else qp_value priceRule)"

text \<open>The loop of lines 66--88, on the pair \<^verbatim>\<open>(bestTotal, appliedDiscount)\<close>.\<close>

fun bestRuleLoop ::
  "rat \<Rightarrow> int \<Rightarrow> subcategoryQuantityPrice list \<Rightarrow> rat \<times> appliedRule option \<Rightarrow> rat \<times> appliedRule option"
where
  "bestRuleLoop basePrice quantity [] acc = acc"
| "bestRuleLoop basePrice quantity (priceRule # rest) (bestTotal, applied) =
     (if quantity \<ge> qp_quantity priceRule then
        (if finalPriceForRule basePrice quantity priceRule < bestTotal
         then bestRuleLoop basePrice quantity rest
                (finalPriceForRule basePrice quantity priceRule,
                 Some \<lparr>ar_quantity = qp_quantity priceRule, ar_priceType = qp_priceType priceRule,
                        ar_value = qp_value priceRule\<rparr>)
         else bestRuleLoop basePrice quantity rest (bestTotal, applied))
      else bestRuleLoop basePrice quantity rest (bestTotal, applied))"

text \<open>
  \<^verbatim>\<open>pricePerItem\<close> is \<^verbatim>\<open>bestTotal / quantity\<close>; with a quantity of 0 JavaScript gives
  \<^verbatim>\<open>NaN\<close> or an infinity, which is \<open>None\<close> here.
\<close>

definition calculateItemQuantityPrice ::
  "database \<Rightarrow> string \<Rightarrow> string option \<Rightarrow> rat \<Rightarrow> int \<Rightarrow> quantityPricing"
where
  "calculateItemQuantityPrice db productId subcategoryId basePrice quantity =
     (if \<not> truthyStr subcategoryId then
        \<lparr>originalPrice = basePrice * of_int quantity, finalPrice = basePrice * of_int quantity,
         totalSavings = 0, pricePerItem = Some basePrice, hasDiscount = False,
         appliedDiscount = None\<rparr>
      else
        let (bestTotal, applied) =
              bestRuleLoop basePrice quantity (quantityPrices db (strOf subcategoryId) quantity)
                (basePrice * of_int quantity, None)
        in \<lparr>originalPrice = basePrice * of_int quantity, finalPrice = bestTotal,
            totalSavings = (basePrice * of_int quantity) - bestTotal,
            pricePerItem = (if quantity = 0 then None else Some (bestTotal / of_int quantity)),
            hasDiscount = (applied \<noteq> None), appliedDiscount = applied\<rparr>)"

subsection \<open>Coupon validation: \<^verbatim>\<open>DiscountService.validateDiscount\<close>\<close>

record validatedDiscount =
  vd_id :: string
  vd_name :: string
  vd_discountType :: discountType
  vd_discountValue :: rat
  vd_maxDiscount :: "rat option"
  vd_discountAmount :: rat
  vd_maxDiscountReached :: bool
  vd_minOrderAmount :: rat

datatype validation = Invalid message | Valid validatedDiscount

text \<open>
  Lines 2717--2772: \<^verbatim>\<open>findFirst({ where: { name: code, isActive: true } })\<close>, and, when that
  finds nothing, \<^verbatim>\<open>findUnique({ where: { id: code } })\<close>.
\<close>

definition findDiscountByCode :: "database \<Rightarrow> string \<Rightarrow> discount option" where
  "findDiscountByCode db code =
     (case find (\<lambda>d. d_name d = code \<and> d_isActive d) (discounts db) of
        Some d \<Rightarrow> Some d
      | None \<Rightarrow> find (\<lambda>d. d_id d = code) (discounts db))"

text \<open>Lines 2838--2850: the amount and the \<^verbatim>\<open>maxDiscountReached\<close> flag.\<close>

definition couponAmount :: "discount \<Rightarrow> rat \<Rightarrow> rat \<times> bool" where
  "couponAmount discount orderAmt =
     (if d_discountType discount = PERCENTAGE then
        (if truthyNum (d_maxDiscount discount)
            \<and> (orderAmt * d_discountValue discount) / 100 > toNumber (d_maxDiscount discount)
         then (toNumber (d_maxDiscount discount), True)
         else ((orderAmt * d_discountValue discount) / 100, False))
      else (d_discountValue discount, False))"

text \<open>
  Lines 2712--2877. The argument \<open>orderAmount\<close> is a number, so \<^verbatim>\<open>parseFloat(orderAmount) || 0\<close>
  is that number. The query functions do not fail in this model, so the \<^verbatim>\<open>catch\<close> branch
  of the function is not reached.
\<close>

definition validateDiscount :: "database \<Rightarrow> int \<Rightarrow> string \<Rightarrow> string option \<Rightarrow> rat \<Rightarrow> validation" where
  "validateDiscount db now code userId orderAmount =
     (let orderAmt = orderAmount in
      case findDiscountByCode db code of
        None \<Rightarrow> Invalid InvalidDiscountCode
      | Some discount \<Rightarrow>
          if \<not> d_isActive discount then Invalid DiscountIsNotActive
          else if now < d_validFrom discount then Invalid DiscountNotYetValid
          else if now > d_validUntil discount then Invalid DiscountHasExpired
          else if truthyInt (d_usageLimit discount)
                  \<and> d_usedCount discount \<ge> toNumberInt (d_usageLimit discount)
            then Invalid DiscountUsageLimitReached
          else if d_perUserLimit discount > 0 \<and> truthyStr userId
                  \<and> userUsageCount db (d_id discount) (strOf userId) \<ge> d_perUserLimit discount
            then Invalid UserUsageLimitReached
          else
            let minOrderAmount =
                  (if truthyNum (d_minOrderAmount discount) then toNumber (d_minOrderAmount discount)
                   else 0)
            in if orderAmt < minOrderAmount then Invalid (MinimumOrderAmountRequired minOrderAmount)
               else
                 let (discountAmount, maxDiscountReached) = couponAmount discount orderAmt
                 in Valid \<lparr>vd_id = d_id discount, vd_name = d_name discount,
                           vd_discountType = d_discountType discount,
                           vd_discountValue = d_discountValue discount,
                           vd_maxDiscount = d_maxDiscount discount,
                           vd_discountAmount = discountAmount,
                           vd_maxDiscountReached = maxDiscountReached,
                           vd_minOrderAmount = minOrderAmount\<rparr>)"

subsection \<open>Discount resolution: \<^verbatim>\<open>DiscountService.getProductDiscounts\<close>\<close>

text \<open>
  The \<^verbatim>\<open>where\<close> clause of lines 2052--2068. A filter \<^verbatim>\<open>{ column: v }\<close> is equality on
  the nullable column, so with \<^verbatim>\<open>v = null\<close> it selects the rows whose column is null, the
  way the sitewide disjunct \<^verbatim>\<open>{ productId: null }\<close> of the same query is meant.
\<close>

definition discountWhere :: "int \<Rightarrow> string \<Rightarrow> product \<Rightarrow> discount \<Rightarrow> bool" where
  "discountWhere now productId product d =
     ((d_productId d = Some productId
        \<or> d_categoryId d = p_categoryId product
        \<or> d_subcategoryId d = p_subcategoryId product
        \<or> (d_productId d = None \<and> d_categoryId d = None \<and> d_subcategoryId d = None))
      \<and> d_isActive d \<and> d_validFrom d \<le> now \<and> d_validUntil d \<ge> now)"

text \<open>\<^verbatim>\<open>orderBy: [{ discountValue: 'desc' }, { createdAt: 'desc' }]\<close>\<close>

definition orderByValueThenCreated :: "discount list \<Rightarrow> discount list" where
  "orderByValueThenCreated ds = sort_key (\<lambda>d. (- d_discountValue d, - d_createdAt d)) ds"

text \<open>
  The callback of lines 2110--2143: \<open>False\<close> where it returns \<^verbatim>\<open>null\<close>.
  \<^verbatim>\<open>user?.role !== discount.userType\<close> holds also when the user row is missing.
\<close>

definition userEligible :: "database \<Rightarrow> string option \<Rightarrow> discount \<Rightarrow> bool" where
  "userEligible db userId discount =
     (if truthyStr (d_userType discount) \<and> d_userType discount \<noteq> Some ''ALL'' \<and> truthyStr userId
         \<and> map_option usr_role (find (\<lambda>u. usr_id u = strOf userId) (users db)) \<noteq> d_userType discount
      then False
      else if d_perUserLimit discount > 0 \<and> truthyStr userId
              \<and> userUsageCount db (d_id discount) (strOf userId) \<ge> d_perUserLimit discount
      then False
      else if truthyInt (d_usageLimit discount)
              \<and> d_usedCount discount \<ge> toNumberInt (d_usageLimit discount)
      then False
      else True)"

definition getProductDiscounts ::
  "database \<Rightarrow> int \<Rightarrow> string \<Rightarrow> string option \<Rightarrow> message + discount list"
where
  "getProductDiscounts db now productId userId =
     (case find (\<lambda>p. p_id p = productId) (products db) of
        None \<Rightarrow> Inl ProductNotFound
      | Some product \<Rightarrow>
          Inr (filter (userEligible db userId)
                 (orderByValueThenCreated
                    (filter (discountWhere now productId product) (discounts db)))))"

subsection \<open>Per-unit best discount: \<^verbatim>\<open>DiscountService.calculateProductDiscount\<close>\<close>

text \<open>A discount row extended by \<^verbatim>\<open>calculatedAmount\<close> and \<^verbatim>\<open>finalPrice\<close>.\<close>

record pricedDiscount =
  pr_discount :: discount
  pr_calculatedAmount :: rat
  pr_finalPrice :: rat

record productDiscountResult =
  pd_hasDiscount :: bool
  pd_originalPrice :: rat
  pd_finalPrice :: rat
  pd_discountAmount :: rat
  pd_applicableDiscounts :: "pricedDiscount list"
  pd_bestDiscount :: "pricedDiscount option"

text \<open>Lines 2327--2346, on the unit price.\<close>

definition unitDiscountAmount :: "rat \<Rightarrow> discount \<Rightarrow> rat" where
  "unitDiscountAmount price discount =
     (if d_discountType discount = PERCENTAGE then
        (if truthyNum (d_maxDiscount discount)
            \<and> (price * d_discountValue discount) / 100 > toNumber (d_maxDiscount discount)
         then toNumber (d_maxDiscount discount)
         else (price * d_discountValue discount) / 100)
      else if d_discountType discount = FIXED_AMOUNT then min (d_discountValue discount) price
      else min (d_discountValue discount) price)"

definition withUnitAmount :: "rat \<Rightarrow> discount \<Rightarrow> pricedDiscount" where
  "withUnitAmount price discount =
     \<lparr>pr_discount = discount, pr_calculatedAmount = unitDiscountAmount price discount,
      pr_finalPrice = max 0 (price - unitDiscountAmount price discount)\<rparr>"

text \<open>
  Lines 2297--2361. \<^verbatim>\<open>Array.prototype.sort\<close> is stable, as \<^const>\<open>sort_key\<close> is; the best
  discount is the first element of the sorted array, which is not empty there.
\<close>

definition calculateProductDiscount ::
  "database \<Rightarrow> int \<Rightarrow> string \<Rightarrow> string option \<Rightarrow> message + productDiscountResult"
where
  "calculateProductDiscount db now productId userId =
     (case find (\<lambda>p. p_id p = productId) (products db) of
        None \<Rightarrow> Inl ProductNotFound
      | Some product \<Rightarrow>
          (case getProductDiscounts db now productId userId of
             Inl e \<Rightarrow> Inl e
           | Inr applicableDiscounts \<Rightarrow>
               if length applicableDiscounts = 0 then
                 Inr \<lparr>pd_hasDiscount = False, pd_originalPrice = unitPriceOf product,
                      pd_finalPrice = unitPriceOf product, pd_discountAmount = 0,
                      pd_applicableDiscounts = [], pd_bestDiscount = None\<rparr>
               else
                 let price = unitPriceOf product;
                     discountsWithAmount =
                       sort_key (\<lambda>x. - pr_calculatedAmount x)
                         (map (withUnitAmount price) applicableDiscounts)
                 in (case discountsWithAmount of
                       [] \<Rightarrow> Inl TypeError
                     | bestDiscount # _ \<Rightarrow>
                         Inr \<lparr>pd_hasDiscount = True, pd_originalPrice = price,
                              pd_finalPrice = pr_finalPrice bestDiscount,
                              pd_discountAmount = pr_calculatedAmount bestDiscount,
                              pd_applicableDiscounts = discountsWithAmount,
                              pd_bestDiscount = Some bestDiscount\<rparr>)))"

subsection \<open>Best discount of a line: \<^verbatim>\<open>DiscountService.getBestProductDiscount\<close>\<close>

text \<open>
  A cart line as \<^verbatim>\<open>calculateCartDiscounts\<close> receives it: the product row it was enriched
  with, the quantity and the product id.
\<close>

record cartItem =
  ci_product :: product
  ci_quantity :: int
  ci_productId :: string

text \<open>The test of lines 2663--2668 that makes the loop \<^verbatim>\<open>continue\<close>.\<close>

definition skipped :: "int \<Rightarrow> discount \<Rightarrow> bool" where
  "skipped quantity discount =
     (truthyInt (d_minQuantity discount) \<and> quantity < toNumberInt (d_minQuantity discount))"

text \<open>
  The \<^verbatim>\<open>switch\<close> of lines 2672--2695 on the line total. In the last case
  \<^verbatim>\<open>quantity >= discount.minQuantity\<close> compares with 0 when the column is null.
\<close>

definition lineDiscountAmount :: "rat \<Rightarrow> int \<Rightarrow> discount \<Rightarrow> rat" where
  "lineDiscountAmount totalPrice quantity discount =
     (case d_discountType discount of
        PERCENTAGE \<Rightarrow>
          (if truthyNum (d_maxDiscount discount)
           then min ((totalPrice * d_discountValue discount) / 100) (toNumber (d_maxDiscount discount))
           else (totalPrice * d_discountValue discount) / 100)
      | FIXED_AMOUNT \<Rightarrow> min (d_discountValue discount) totalPrice
      | BUY_X_GET_Y \<Rightarrow>
          (if quantity \<ge> toNumberInt (d_minQuantity discount) then d_discountValue discount else 0))"

text \<open>The loop of lines 2662--2705 on the pair \<^verbatim>\<open>(bestDiscount, maxDiscountAmount)\<close>.\<close>

fun bestDiscountLoop ::
  "rat \<Rightarrow> int \<Rightarrow> discount list \<Rightarrow> pricedDiscount option \<times> rat \<Rightarrow> pricedDiscount option \<times> rat"
where
  "bestDiscountLoop totalPrice quantity [] acc = acc"
| "bestDiscountLoop totalPrice quantity (discount # rest) (bestDiscount, maxDiscountAmount) =
     (if skipped quantity discount
      then bestDiscountLoop totalPrice quantity rest (bestDiscount, maxDiscountAmount)
      else if lineDiscountAmount totalPrice quantity discount > maxDiscountAmount
      then bestDiscountLoop totalPrice quantity rest
             (Some \<lparr>pr_discount = discount,
                    pr_calculatedAmount = lineDiscountAmount totalPrice quantity discount,
                    pr_finalPrice = max 0 (totalPrice - lineDiscountAmount totalPrice quantity discount)\<rparr>,
              lineDiscountAmount totalPrice quantity discount)
      else bestDiscountLoop totalPrice quantity rest (bestDiscount, maxDiscountAmount))"

definition getBestProductDiscount :: "discount list \<Rightarrow> cartItem \<Rightarrow> pricedDiscount option" where
  "getBestProductDiscount discountList cartItem =
     (let unitPrice = unitPriceOf (ci_product cartItem);
          totalPrice = unitPrice * of_int (ci_quantity cartItem)
      in fst (bestDiscountLoop totalPrice (ci_quantity cartItem) discountList (None, 0)))"

subsection \<open>Cart discount calculator: \<^verbatim>\<open>DiscountService.calculateCartDiscounts\<close>\<close>

datatype descriptorType = ORDER_LEVEL | PRODUCT_LEVEL

record appliedDiscountDescriptor =
  ad_type :: descriptorType
  ad_code :: "string option"
  ad_name :: "string option"
  ad_productId :: "string option"
  ad_productName :: "string option"
  ad_discountType :: discountType
  ad_discountValue :: rat
  ad_amount :: rat

record cartDiscounts =
  cd_subtotal :: rat
  cd_totalDiscount :: rat
  cd_finalTotal :: rat
  cd_appliedDiscounts :: "appliedDiscountDescriptor list"
  cd_errors :: "message list option"
  cd_discountCode :: "string option"

text \<open>The \<^verbatim>\<open>reduce\<close> of lines 2395--2398.\<close>

definition cartSubtotal :: "cartItem list \<Rightarrow> rat" where
  "cartSubtotal cartItems =
     foldl (\<lambda>sum item. sum + unitPriceOf (ci_product item) * of_int (ci_quantity item)) 0 cartItems"

text \<open>
  The loop of lines 2448--2474 on the pair \<^verbatim>\<open>(totalDiscount, appliedDiscounts)\<close>;
  \<^verbatim>\<open>getProductDiscounts\<close> throws for an unknown product and nothing catches it.
\<close>

fun autoBestLoop ::
  "database \<Rightarrow> int \<Rightarrow> string option \<Rightarrow> cartItem list \<Rightarrow> rat \<times> appliedDiscountDescriptor list
     \<Rightarrow> message + (rat \<times> appliedDiscountDescriptor list)"
where
  "autoBestLoop db now userId [] acc = Inr acc"
| "autoBestLoop db now userId (item # rest) (totalDiscount, appliedDiscounts) =
     (case getProductDiscounts db now (ci_productId item) userId of
        Inl e \<Rightarrow> Inl e
      | Inr productDiscounts \<Rightarrow>
          if length productDiscounts = 0
          then autoBestLoop db now userId rest (totalDiscount, appliedDiscounts)
          else (case getBestProductDiscount productDiscounts item of
                  None \<Rightarrow> autoBestLoop db now userId rest (totalDiscount, appliedDiscounts)
                | Some bestDiscount \<Rightarrow>
                    autoBestLoop db now userId rest
                      (totalDiscount + pr_calculatedAmount bestDiscount,
                       appliedDiscounts @
                         [\<lparr>ad_type = PRODUCT_LEVEL, ad_code = None, ad_name = None,
                           ad_productId = Some (ci_productId item),
                           ad_productName = Some (p_name (ci_product item)),
                           ad_discountType = d_discountType (pr_discount bestDiscount),
                           ad_discountValue = d_discountValue (pr_discount bestDiscount),
                           ad_amount = pr_calculatedAmount bestDiscount\<rparr>])))"

text \<open>
  Lines 2389--2486. In the coupon branch an invalid validation is thrown and caught at
  once: its message is pushed on \<^verbatim>\<open>errors\<close>.
\<close>

definition calculateCartDiscounts ::
  "database \<Rightarrow> int \<Rightarrow> cartItem list \<Rightarrow> string option \<Rightarrow> string option \<Rightarrow> message + cartDiscounts"
where
  "calculateCartDiscounts db now cartItems userId discountCode =
     (let subtotal = cartSubtotal cartItems in
      if truthyStr discountCode then
        let (totalDiscount, appliedDiscounts, errors) =
              (case validateDiscount db now (strOf discountCode) userId subtotal of
                 Invalid m \<Rightarrow> (0, [], [m])
               | Valid discount \<Rightarrow>
                   (0 + vd_discountAmount discount,
                    [\<lparr>ad_type = ORDER_LEVEL, ad_code = discountCode,
                      ad_name = Some (vd_name discount), ad_productId = None,
                      ad_productName = None,
                      ad_discountType = vd_discountType discount,
                      ad_discountValue = vd_discountValue discount,
                      ad_amount = vd_discountAmount discount\<rparr>],
                    []));
            finalTotal = max 0 (subtotal - totalDiscount)
        in Inr \<lparr>cd_subtotal = toFixed2 subtotal, cd_totalDiscount = toFixed2 totalDiscount,
                cd_finalTotal = toFixed2 finalTotal, cd_appliedDiscounts = appliedDiscounts,
                cd_errors = (if length errors \<noteq> 0 then Some errors else None),
                cd_discountCode = discountCode\<rparr>
      else
        (case autoBestLoop db now userId cartItems (0, []) of
           Inl e \<Rightarrow> Inl e
         | Inr (totalDiscount, appliedDiscounts) \<Rightarrow>
             let finalTotal = max 0 (subtotal - totalDiscount)
             in Inr \<lparr>cd_subtotal = toFixed2 subtotal, cd_totalDiscount = toFixed2 totalDiscount,
                     cd_finalTotal = toFixed2 finalTotal, cd_appliedDiscounts = appliedDiscounts,
                     cd_errors = None, cd_discountCode = None\<rparr>))"

subsection \<open>The effective \<^verbatim>\<open>DiscountService.calculateFinalAmountWithDiscounts\<close>\<close>

text \<open>
  The class body declares the method twice (lines 2491 and 2880); a later declaration of a
  method replaces an earlier one, so the method of lines 2880--2977 is the one a call
  reaches. It is the one embedded here. Its callers pass lines of the form
  \<^verbatim>\<open>{ productId, quantity, price: 0 }\<close>.
\<close>

record finalCartItem =
  fc_productId :: string
  fc_quantity :: int

record itemWithDetails =
  iw_product :: product
  iw_price :: rat
  iw_quantity :: int
  iw_itemTotal :: rat

text \<open>
  The two shapes pushed on \<^verbatim>\<open>appliedDiscounts\<close>: \<^verbatim>\<open>{ discount, amount, type: 'CODE' }\<close>
  and \<^verbatim>\<open>{ productId, discount, amount, type }\<close>.
\<close>

datatype finalDescriptor =
    CodeDescriptor validatedDiscount rat
  | ProductDescriptor string pricedDiscount rat

record finalAmount =
  fa_subtotal :: rat
  fa_totalDiscount :: rat
  fa_shipping :: rat
  fa_finalTotal :: rat
  fa_appliedDiscounts :: "finalDescriptor list"
  fa_errors :: "message list option"
  fa_discountCode :: "string option"

text \<open>The loop of lines 2887--2913 on the pair \<^verbatim>\<open>(subtotal, itemsWithDetails)\<close>.\<close>

fun detailsLoop ::
  "database \<Rightarrow> finalCartItem list \<Rightarrow> rat \<times> itemWithDetails list \<Rightarrow> message + (rat \<times> itemWithDetails list)"
where
  "detailsLoop db [] acc = Inr acc"
| "detailsLoop db (item # rest) (subtotal, itemsWithDetails) =
     (case find (\<lambda>p. p_id p = fc_productId item) (products db) of
        None \<Rightarrow> Inl (ProductIdNotFound (fc_productId item))
      | Some product \<Rightarrow>
          detailsLoop db rest
            (subtotal + unitPriceOf product * of_int (fc_quantity item),
             itemsWithDetails @
               [\<lparr>iw_product = product, iw_price = unitPriceOf product,
                 iw_quantity = fc_quantity item,
                 iw_itemTotal = unitPriceOf product * of_int (fc_quantity item)\<rparr>]))"

text \<open>The loop of lines 2941--2955 on the pair \<^verbatim>\<open>(productDiscounts, appliedDiscounts)\<close>.\<close>

fun productDiscountsLoop ::
  "database \<Rightarrow> int \<Rightarrow> string option \<Rightarrow> itemWithDetails list \<Rightarrow> rat \<times> finalDescriptor list
     \<Rightarrow> message + (rat \<times> finalDescriptor list)"
where
  "productDiscountsLoop db now userId [] acc = Inr acc"
| "productDiscountsLoop db now userId (item # rest) (productDiscounts, appliedDiscounts) =
     (case calculateProductDiscount db now (p_id (iw_product item)) userId of
        Inl e \<Rightarrow> Inl e
      | Inr productDiscount \<Rightarrow>
          if pd_hasDiscount productDiscount then
            (case pd_bestDiscount productDiscount of
               None \<Rightarrow> Inl TypeError
             | Some bestDiscount \<Rightarrow>
                 productDiscountsLoop db now userId rest
                   (productDiscounts + pd_discountAmount productDiscount * of_int (iw_quantity item),
                    appliedDiscounts @
                      [ProductDescriptor (p_id (iw_product item)) bestDiscount
                         (pd_discountAmount productDiscount * of_int (iw_quantity item))]))
          else productDiscountsLoop db now userId rest (productDiscounts, appliedDiscounts))"

text \<open>
  Lines 2880--2977. A non-numeric shipping value has no \<^verbatim>\<open>toFixed\<close>: building the result
  throws a \<^verbatim>\<open>TypeError\<close>.
\<close>

definition calculateFinalAmountWithDiscounts ::
  "database \<Rightarrow> int \<Rightarrow> finalCartItem list \<Rightarrow> string option \<Rightarrow> string option \<Rightarrow> string option
     \<Rightarrow> message + finalAmount"
where
  "calculateFinalAmountWithDiscounts db now cartItems shippingState userId discountCode =
     (case detailsLoop db cartItems (0, []) of
        Inl e \<Rightarrow> Inl e
      | Inr (subtotal, itemsWithDetails) \<Rightarrow>
          let (discountAmount, codeDiscounts, errors) =
                (if truthyStr discountCode then
                   (case validateDiscount db now (strOf discountCode) userId subtotal of
                      Valid discount \<Rightarrow>
                        (vd_discountAmount discount,
                         [CodeDescriptor discount (vd_discountAmount discount)], [])
                    | Invalid m \<Rightarrow> (0, [], [m]))
                 else (0, [], []))
          in (case productDiscountsLoop db now userId itemsWithDetails (0, codeDiscounts) of
                Inl e \<Rightarrow> Inl e
              | Inr (productDiscounts, appliedDiscounts) \<Rightarrow>
                  let totalDiscount = discountAmount + productDiscounts
                  in (case discountServiceShippingCost shippingState of
                        NonNumeric \<Rightarrow> Inl TypeError
                      | Num shippingCost \<Rightarrow>
                          let finalTotal = max 0 (subtotal - totalDiscount + shippingCost)
                          in Inr \<lparr>fa_subtotal = toFixed2 subtotal,
                                  fa_totalDiscount = toFixed2 totalDiscount,
                                  fa_shipping = toFixed2 shippingCost,
                                  fa_finalTotal = toFixed2 finalTotal,
                                  fa_appliedDiscounts = appliedDiscounts,
                                  fa_errors = (if length errors > 0 then Some errors else None),
                                  fa_discountCode = discountCode\<rparr>)))"

subsection \<open>Order total assembly: \<^verbatim>\<open>OrderService.calculateOrderTotals\<close>\<close>

text \<open>
  An order line of the request. A missing \<^verbatim>\<open>productId\<close> is the empty string and a missing
  \<^verbatim>\<open>quantity\<close> is 0: both are falsy, as \<^verbatim>\<open>undefined\<close> is.
\<close>

record orderItem =
  oi_productId :: string
  oi_quantity :: int
  oi_productVariantId :: "string option"

record pricedItem =
  pi_item :: orderItem
  pi_product :: product
  pi_basePrice :: rat
  pi_quantityPricing :: quantityPricing
  pi_itemTotal :: rat
  pi_itemSavings :: rat

record orderTotals =
  ot_subtotal :: rat
  ot_quantitySavings :: rat
  ot_discountAmount :: rat
  ot_appliedDiscounts :: "appliedDiscountDescriptor list"
  ot_shippingCost :: rat
  ot_shippingState :: "string option"
  ot_totalAmount :: rat
  ot_items :: "pricedItem list"
  ot_hasQuantityDiscounts :: bool
  ot_discountError :: "message list option"

text \<open>
  Lines 142--185: the variant checks and the base price of a line. The variant price, when
  it is not null, replaces the product price.
\<close>

definition basePriceOf :: "database \<Rightarrow> product \<Rightarrow> orderItem \<Rightarrow> message + rat" where
  "basePriceOf db product item =
     (if truthyStr (oi_productVariantId item) then
        (case find (\<lambda>v. v_id v = strOf (oi_productVariantId item)) (productVariants db) of
           None \<Rightarrow> Inl (VariantNotFound (strOf (oi_productVariantId item)))
         | Some variant \<Rightarrow>
             if v_stock variant < oi_quantity item
             then Inl (InsufficientStock (strOf (oi_productVariantId item)) (v_stock variant)
                         (oi_quantity item))
             else (case v_price variant of
                     Some variantPrice \<Rightarrow> Inr variantPrice
                   | None \<Rightarrow> Inr (unitPriceOf product)))
      else Inr (unitPriceOf product))"

text \<open>
  The loop of lines 114--217 on \<^verbatim>\<open>(subtotal, quantitySavings, itemsWithPricing)\<close>. The
  product copied into the priced line keeps \<^verbatim>\<open>offerPrice\<close> only when it is truthy.
\<close>

fun pricingLoop ::
  "database \<Rightarrow> orderItem list \<Rightarrow> rat \<times> rat \<times> pricedItem list
     \<Rightarrow> message + (rat \<times> rat \<times> pricedItem list)"
where
  "pricingLoop db [] acc = Inr acc"
| "pricingLoop db (item # rest) (subtotal, quantitySavings, itemsWithPricing) =
     (if oi_productId item = [] \<or> oi_quantity item = 0 \<or> oi_quantity item \<le> 0
      then Inl InvalidOrderItem
      else
        (case find (\<lambda>p. p_id p = oi_productId item) (products db) of
           None \<Rightarrow> Inl (OrderProductNotFound (oi_productId item))
         | Some product \<Rightarrow>
             if p_status product \<noteq> ''ACTIVE'' then Inl (ProductNotAvailable (p_id product))
             else
               (case basePriceOf db product item of
                  Inl e \<Rightarrow> Inl e
                | Inr basePrice \<Rightarrow>
                    let quantityPriceCalculation =
                          calculateItemQuantityPrice db (p_id product) (p_subcategoryId product)
                            basePrice (oi_quantity item);
                        itemTotal = finalPrice quantityPriceCalculation;
                        itemSavings = totalSavings quantityPriceCalculation
                    in pricingLoop db rest
                         (subtotal + itemTotal, quantitySavings + itemSavings,
                          itemsWithPricing @
                            [\<lparr>pi_item = item,
                              pi_product = product
                                \<lparr>p_offerPrice :=
                                   (if truthyNum (p_offerPrice product) then p_offerPrice product
                                    else None)\<rparr>,
                              pi_basePrice = basePrice,
                              pi_quantityPricing = quantityPriceCalculation,
                              pi_itemTotal = itemTotal, pi_itemSavings = itemSavings\<rparr>]))))"

text \<open>The lines handed to \<^verbatim>\<open>calculateCartDiscounts\<close> (lines 227--232).\<close>

definition toCartItem :: "pricedItem \<Rightarrow> cartItem" where
  "toCartItem item =
     \<lparr>ci_product = pi_product item, ci_quantity = oi_quantity (pi_item item),
      ci_productId = oi_productId (pi_item item)\<rparr>"

text \<open>
  Lines 103--265. The total of line 251 is \<^verbatim>\<open>subtotal - discountAmount + shippingCost\<close>.
  \<^verbatim>\<open>discountError\<close> is the list of messages that \<^verbatim>\<open>join\<close> concatenates.
\<close>

definition calculateOrderTotals ::
  "database \<Rightarrow> int \<Rightarrow> orderItem list \<Rightarrow> string option \<Rightarrow> string option \<Rightarrow> string option
     \<Rightarrow> message + orderTotals"
where
  "calculateOrderTotals db now orderItems discountCode shippingState userId =
     (if length orderItems = 0 then Inl OrderItemsRequired
      else
        (case pricingLoop db orderItems (0, 0, []) of
           Inl e \<Rightarrow> Inl e
         | Inr (subtotal, quantitySavings, itemsWithPricing) \<Rightarrow>
             let (discountAmount, appliedDiscounts, discountError) =
                   (if truthyStr discountCode then
                      (case calculateCartDiscounts db now (map toCartItem itemsWithPricing) userId
                              discountCode of
                         Inr discountResult \<Rightarrow>
                           (cd_totalDiscount discountResult, cd_appliedDiscounts discountResult,
                            cd_errors discountResult)
                       | Inl e \<Rightarrow> (0, [], Some [e]))
                    else (0, [], None));
                 shippingCost = calculateShippingCost shippingState;
                 totalAmount = subtotal - discountAmount + shippingCost
             in Inr \<lparr>ot_subtotal = toFixed2 subtotal,
                     ot_quantitySavings = toFixed2 quantitySavings,
                     ot_discountAmount = toFixed2 discountAmount,
                     ot_appliedDiscounts = appliedDiscounts,
                     ot_shippingCost = toFixed2 shippingCost,
                     ot_shippingState = (if truthyStr shippingState then shippingState else None),
                     ot_totalAmount = toFixed2 totalAmount,
                     ot_items = itemsWithPricing,
                     ot_hasQuantityDiscounts = (quantitySavings > 0),
                     ot_discountError = discountError\<rparr>))"

subsection \<open>Usage recording\<close>

text \<open>
  \<^verbatim>\<open>prisma.discount.update\<close> with \<^verbatim>\<open>usedCount: { increment: 1 }\<close> and
  \<^verbatim>\<open>totalDiscounts: { increment: amount }\<close> on the row of the given id.
\<close>

definition incrementDiscountStats :: "string \<Rightarrow> rat \<Rightarrow> discount list \<Rightarrow> discount list" where
  "incrementDiscountStats discountId amount ds =
     map (\<lambda>d. if d_id d = discountId
               then d\<lparr>d_usedCount := d_usedCount d + 1, d_totalDiscounts := d_totalDiscounts d + amount\<rparr>
               else d) ds"

text \<open>
  \<^verbatim>\<open>DiscountService.applyDiscount\<close> (part_003, lines 1830--1974). The result is the usage
  row and the database after the three writes. The comparison with a null
  \<^verbatim>\<open>minOrderAmount\<close> is a comparison with 0.
\<close>

definition applyDiscount ::
  "database \<Rightarrow> int \<Rightarrow> string \<Rightarrow> string \<Rightarrow> string \<Rightarrow> message + (discountUsage \<times> database)"
where
  "applyDiscount db now orderId discountId userId =
     (case find (\<lambda>d. d_id d = discountId) (discounts db) of
        None \<Rightarrow> Inl DiscountNotFound
      | Some discount \<Rightarrow>
          if \<not> d_isActive discount then Inl DiscountIsNotActive
          else if now < d_validFrom discount \<or> now > d_validUntil discount
            then Inl DiscountNotValidAtThisTime
          else if truthyInt (d_usageLimit discount)
                  \<and> d_usedCount discount \<ge> toNumberInt (d_usageLimit discount)
            then Inl DiscountUsageLimitReached
          else if d_perUserLimit discount > 0
                  \<and> userUsageCount db discountId userId \<ge> d_perUserLimit discount
            then Inl UserUsageLimitReached
          else
            (case find (\<lambda>u. u_discountId u = discountId \<and> u_orderId u = orderId) (discountUsages db) of
               Some existingUsage \<Rightarrow> Inl DiscountAlreadyApplied
             | None \<Rightarrow>
                 (case find (\<lambda>r. o_id r = orderId) (orders db) of
                    None \<Rightarrow> Inl OrderNotFound
                  | Some order \<Rightarrow>
                      if truthyStr (d_userType discount)
                         \<and> Some (usr_role (o_user order)) \<noteq> d_userType discount
                      then Inl NotEligible
                      else if o_subtotal order < toNumber (d_minOrderAmount discount)
                      then Inl (MinimumOrderAmountForDiscount (toNumber (d_minOrderAmount discount)))
                      else
                        let discountAmount = fst (couponAmount discount (o_subtotal order));
                            discountUsage =
                              \<lparr>u_discountId = discountId, u_userId = userId, u_orderId = orderId,
                               u_discountAmount = discountAmount\<rparr>
                        in Inr (discountUsage,
                                db\<lparr>orders :=
                                      map (\<lambda>r. if o_id r = orderId
                                                then r\<lparr>o_discount := o_discount r + discountAmount,
                                                       o_totalAmount := o_totalAmount r - discountAmount\<rparr>
                                                else r) (orders db),
                                    discountUsages := discountUsages db @ [discountUsage],
                                    discounts :=
                                      incrementDiscountStats discountId discountAmount (discounts db)\<rparr>))))"

text \<open>
  The recording loop of \<^verbatim>\<open>OrderService.verifyAndCreateOrder\<close> (orderService.js, lines
  557--584). \<^verbatim>\<open>discount.discount?.id\<close> is the id of the discount in the descriptor and
  \<^verbatim>\<open>discount.amount || 0\<close> its amount. The loop body creates the usage row and then
  updates the counters; it does not look for an existing usage of the discount on the order.
  The usage row refers to its discount: for an id without a discount row the
  \<^verbatim>\<open>create\<close> is refused, the error is caught and logged, and the loop goes on.
\<close>

fun descriptorDiscountId :: "finalDescriptor \<Rightarrow> string" where
  "descriptorDiscountId (CodeDescriptor discount amount) = vd_id discount"
| "descriptorDiscountId (ProductDescriptor productId discount amount) = d_id (pr_discount discount)"

fun descriptorAmount :: "finalDescriptor \<Rightarrow> rat" where
  "descriptorAmount (CodeDescriptor discount amount) = amount"
| "descriptorAmount (ProductDescriptor productId discount amount) = amount"

definition recordUsage :: "string \<Rightarrow> string \<Rightarrow> finalDescriptor \<Rightarrow> database \<Rightarrow> database" where
  "recordUsage userId orderId applied db =
     (if descriptorDiscountId applied \<noteq> [] then
        (case find (\<lambda>d. d_id d = descriptorDiscountId applied) (discounts db) of
           None \<Rightarrow> db
         | Some discount \<Rightarrow>
             db\<lparr>discountUsages :=
                   discountUsages db @
                     [\<lparr>u_discountId = descriptorDiscountId applied, u_userId = userId,
                       u_orderId = orderId, u_discountAmount = descriptorAmount applied\<rparr>],
                 discounts :=
                   incrementDiscountStats (descriptorDiscountId applied) (descriptorAmount applied)
                     (discounts db)\<rparr>)
      else db)"

definition recordDiscountUsages ::
  "string \<Rightarrow> string \<Rightarrow> finalDescriptor list \<Rightarrow> database \<Rightarrow> database"
where
  "recordDiscountUsages userId orderId appliedDiscounts db =
     foldl (\<lambda>db applied. recordUsage userId orderId applied db) db appliedDiscounts"

subsection \<open>Concrete catalogues and carts\<close>

text \<open>
  A product at 500 in category \<open>c1\<close> and subcategory \<open>s1\<close>, a sitewide uncapped 10 percent
  discount valid from time 0 to time 100, and the empty database; the scenarios below vary
  them.
\<close>

definition saree :: product where
  "saree =
     \<lparr>p_id = ''p1'', p_name = ''Saree'', p_normalPrice = 500, p_offerPrice = None,
      p_status = ''ACTIVE'', p_categoryId = Some ''c1'', p_subcategoryId = Some ''s1''\<rparr>"

definition site10 :: discount where
  "site10 =
     \<lparr>d_id = ''d1'', d_name = ''SITE10'', d_discountType = PERCENTAGE, d_discountValue = 10,
      d_productId = None, d_categoryId = None, d_subcategoryId = None, d_minQuantity = None,
      d_userType = None, d_minOrderAmount = Some 0, d_maxDiscount = None, d_usageLimit = None,
      d_perUserLimit = 1, d_validFrom = 0, d_validUntil = 100, d_isActive = True,
      d_usedCount = 0, d_totalDiscounts = 0, d_createdAt = 0\<rparr>"

definition emptyDb :: database where
  "emptyDb =
     \<lparr>products = [], productVariants = [], subcategoryQuantityPrices = [], discounts = [],
      discountUsages = [], users = [], orders = []\<rparr>"

text \<open>Scenario A: the product, the sitewide discount, a cart of two pieces, no coupon.\<close>

definition scenarioA :: database where
  "scenarioA = emptyDb\<lparr>products := [saree], discounts := [site10]\<rparr>"

definition cartA :: "cartItem list" where
  "cartA = [\<lparr>ci_product = saree, ci_quantity = 2, ci_productId = ''p1''\<rparr>]"

text \<open>Scenario B: one active rule of 20 percent from 5 pieces on for subcategory \<open>s1\<close>.\<close>

definition scenarioB :: database where
  "scenarioB =
     emptyDb\<lparr>products := [saree],
             subcategoryQuantityPrices :=
               [\<lparr>qp_subcategoryId = ''s1'', qp_quantity = 5, qp_priceType = QP_PERCENTAGE,
                 qp_value = 20, qp_isActive = True\<rparr>]\<rparr>"

text \<open>A coupon of a fixed 500 on a product at 100, shipped to Tamil Nadu.\<close>

definition big500 :: discount where
  "big500 = site10\<lparr>d_id := ''d5'', d_name := ''BIG500'', d_discountType := FIXED_AMOUNT,
                    d_discountValue := 500\<rparr>"

definition cheapShop :: database where
  "cheapShop =
     emptyDb\<lparr>products := [saree\<lparr>p_normalPrice := 100, p_subcategoryId := None\<rparr>],
             discounts := [big500]\<rparr>"

definition cheapOrder :: "orderItem list" where
  "cheapOrder = [\<lparr>oi_productId = ''p1'', oi_quantity = 1, oi_productVariantId = None\<rparr>]"

text \<open>A percentage coupon whose cap is stored as 0.\<close>

definition cap0 :: discount where
  "cap0 = site10\<lparr>d_id := ''d0'', d_name := ''CAP0'', d_maxDiscount := Some 0\<rparr>"

definition cap0Shop :: database where
  "cap0Shop = emptyDb\<lparr>discounts := [cap0]\<rparr>"

text \<open>A percentage coupon of 10 percent capped at 30.\<close>

definition cap30 :: discount where
  "cap30 = site10\<lparr>d_id := ''d3'', d_name := ''CAP30'', d_maxDiscount := Some 30\<rparr>"

definition cap30Shop :: database where
  "cap30Shop = emptyDb\<lparr>discounts := [cap30]\<rparr>"

text \<open>A coupon that is switched off.\<close>

definition save50 :: discount where
  "save50 = site10\<lparr>d_id := ''d50'', d_name := ''SAVE50'', d_discountType := FIXED_AMOUNT,
                    d_discountValue := 50, d_minOrderAmount := Some 100, d_isActive := False\<rparr>"

definition save50Shop :: database where
  "save50Shop = emptyDb\<lparr>discounts := [save50]\<rparr>"

text \<open>
  A product without a subcategory, and a discount that names another product (\<open>p2\<close>) and
  no category or subcategory.
\<close>

definition looseProduct :: product where
  "looseProduct = saree\<lparr>p_subcategoryId := None\<rparr>"

definition onlyP2 :: discount where
  "onlyP2 = site10\<lparr>d_id := ''d2'', d_name := ''ONLYP2'', d_productId := Some ''p2''\<rparr>"

definition looseShop :: database where
  "looseShop = emptyDb\<lparr>products := [looseProduct], discounts := [onlyP2]\<rparr>"

text \<open>
  A product at 10.01 with the sitewide 10 percent discount, and a coupon of a fixed 5;
  the cart holds one piece.
\<close>

definition five :: discount where
  "five = site10\<lparr>d_id := ''d9'', d_name := ''FIVE'', d_discountType := FIXED_AMOUNT,
                  d_discountValue := 5, d_productId := Some ''p9''\<rparr>"

definition centShop :: database where
  "centShop =
     emptyDb\<lparr>products := [saree\<lparr>p_normalPrice := 1001 / 100\<rparr>], discounts := [site10, five]\<rparr>"

definition centCart :: "finalCartItem list" where
  "centCart = [\<lparr>fc_productId = ''p1'', fc_quantity = 1\<rparr>]"

text \<open>The same shop with the product at 500 and two pieces in the cart.\<close>

definition fiveShop :: database where
  "fiveShop = emptyDb\<lparr>products := [saree], discounts := [site10, five]\<rparr>"

definition fiveCart :: "finalCartItem list" where
  "fiveCart = [\<lparr>fc_productId = ''p1'', fc_quantity = 2\<rparr>]"

text \<open>An order of subtotal 1000 placed by a customer, before any discount is applied.\<close>

definition customer :: user where
  "customer = \<lparr>usr_id = ''u1'', usr_role = ''CUSTOMER''\<rparr>"

definition order1 :: order where
  "order1 = \<lparr>o_id = ''o1'', o_user = customer, o_subtotal = 1000, o_discount = 0,
             o_totalAmount = 1080\<rparr>"

definition orderShop :: database where
  "orderShop = emptyDb\<lparr>products := [saree], discounts := [site10], users := [customer],
                       orders := [order1]\<rparr>"

text \<open>Scenario C: the coupon \<open>SAVE50\<close> switched on, a fixed 50 from an order amount of 100 on.\<close>

definition save50On :: discount where
  "save50On = save50\<lparr>d_isActive := True\<rparr>"

definition scenarioC :: database where
  "scenarioC = emptyDb\<lparr>discounts := [save50On]\<rparr>"

text \<open>The order shop after the customer has applied the sitewide discount to the order.\<close>

definition usage1 :: discountUsage where
  "usage1 = \<lparr>u_discountId = ''d1'', u_userId = ''u1'', u_orderId = ''o1'', u_discountAmount = 100\<rparr>"

definition orderShopAfter :: database where
  "orderShopAfter =
     orderShop\<lparr>orders := [order1\<lparr>o_discount := 100, o_totalAmount := 980\<rparr>],
               discountUsages := [usage1],
               discounts := [site10\<lparr>d_usedCount := 1, d_totalDiscounts := 100\<rparr>]\<rparr>"

text \<open>Coupons whose limits are stored as 0, and a user who has used the second one once.\<close>

definition limit0 :: discount where
  "limit0 = site10\<lparr>d_id := ''dl'', d_name := ''LIMIT0'', d_usageLimit := Some 0, d_usedCount := 5\<rparr>"

definition perUser0 :: discount where
  "perUser0 = site10\<lparr>d_id := ''dq'', d_name := ''PERUSER0'', d_perUserLimit := 0\<rparr>"

definition zeroLimitShop :: database where
  "zeroLimitShop =
     emptyDb\<lparr>discounts := [limit0, perUser0],
             discountUsages :=
               [\<lparr>u_discountId = ''dq'', u_userId = ''u1'', u_orderId = ''o0'',
                 u_discountAmount = 10\<rparr>]\<rparr>"



section \<open>Properties\<close>

subsection \<open>Shipping cost\<close>

lemma calculateShippingCost_range: "calculateShippingCost state \<in> {80, 100, 200}"
  by (simp add: calculateShippingCost_def Let_def)

lemma calculateShippingCost_falsy:
  "calculateShippingCost None = 200" "calculateShippingCost (Some []) = 200"
  by (simp_all add: calculateShippingCost_def truthyStr_def)

lemma calculateShippingCost_named:
  "calculateShippingCost (Some ''Tamil Nadu'') = 80"
  "calculateShippingCost (Some ''Kerala'') = 100"
  "calculateShippingCost (Some ''  KERALA '') = 100"
  "calculateShippingCost (Some ''Goa'') = 200"
  by code_simp+

text \<open>
  For ASCII strings the result depends on the state only through its trimmed, lower-cased
  form.
\<close>

lemma calculateShippingCost_normalised:
  assumes "asciiString s" and "asciiString t"
    and "s \<noteq> []" and "t \<noteq> []" and "toLowerCase (trim s) = toLowerCase (trim t)"
  shows "calculateShippingCost (Some s) = calculateShippingCost (Some t)"
  using assms by (simp add: calculateShippingCost_def truthyStr_def strOf_def)

lemma calculateShippingCost_unrecognised:
  assumes "asciiString s"
    and "toLowerCase (trim s) \<notin>
             {''tamil nadu'', ''kerala'', ''karnataka'', ''andhra pradesh'', ''telangana''}"
  shows "calculateShippingCost (Some s) = 200"
  using assms by (simp add: calculateShippingCost_def strOf_def Let_def)

lemma discountServiceShippingCost_named:
  "discountServiceShippingCost (Some ''Tamil Nadu'') = Num 80"
  "discountServiceShippingCost (Some ''Kerala'') = Num 100"
  "discountServiceShippingCost (Some []) = Num 200"
  "discountServiceShippingCost None = Num 200"
  "discountServiceShippingCost (Some ''Goa'') = Num 200"
  "discountServiceShippingCost (Some ''constructor'') = NonNumeric"
  by code_simp+

text \<open>
  Claim C10. The shipping rule is to trim and lower-case the state before the table lookup.
  \<^verbatim>\<open>OrderService.calculateShippingCost\<close> does so (the lemmas above); the
  \<^verbatim>\<open>calculateShippingCost\<close> of \<^verbatim>\<open>DiscountService\<close>, which prices the order at
  confirmation, looks the state up as it is typed: the state \<open>tamil nadu\<close> costs 80 in the
  first and 200 in the second, and so does \<open>Tamil Nadu\<close> followed by a space.
\<close>

theorem C10_discount_service_shipping_not_normalised:
  "calculateShippingCost (Some ''tamil nadu'') = 80
   \<and> discountServiceShippingCost (Some ''tamil nadu'') = Num 200
   \<and> calculateShippingCost (Some ''Tamil Nadu '') = 80
   \<and> discountServiceShippingCost (Some ''Tamil Nadu '') = Num 200"
  by code_simp

subsection \<open>Order total assembly\<close>

lemma toFixed2_nonneg: "0 \<le> x \<Longrightarrow> 0 \<le> toFixed2 x"
  by (simp add: toFixed2_def)

text \<open>The total of \<^verbatim>\<open>calculateFinalAmountWithDiscounts\<close> is floored at 0 before rounding.\<close>

lemma calculateFinalAmountWithDiscounts_nonneg:
  assumes "calculateFinalAmountWithDiscounts db now cartItems shippingState userId discountCode = Inr r"
  shows "0 \<le> fa_finalTotal r"
  using assms
  by (auto simp: calculateFinalAmountWithDiscounts_def Let_def toFixed2_nonneg
           split: sum.splits prod.splits jsValue.splits)

text \<open>
  Claim C1. The total of an order is \<open>max 0 (subtotal - discountAmount + shippingCost)\<close> and
  never negative. \<^verbatim>\<open>calculateFinalAmountWithDiscounts\<close> applies the floor;
  \<^verbatim>\<open>calculateOrderTotals\<close> does not: for one piece of a product at 100, the coupon
  \<open>BIG500\<close> (a fixed 500) and shipping to Tamil Nadu it returns subtotal 100, discount 500,
  shipping 80 and the total -320.
\<close>

theorem C1_order_total_negative:
  "map_sum id (\<lambda>r. (ot_subtotal r, ot_discountAmount r, ot_shippingCost r, ot_totalAmount r))
     (calculateOrderTotals cheapShop 5 cheapOrder (Some ''BIG500'') (Some ''Tamil Nadu'') None)
   = Inr (100, 500, 80, - 320)"
  by code_simp

subsection \<open>Discount resolution\<close>

lemma getProductDiscounts_set:
  assumes "find (\<lambda>p. p_id p = productId) (products db) = Some product"
  shows "\<exists>ds. getProductDiscounts db now productId userId = Inr ds
           \<and> set ds = {d \<in> set (discounts db).
                          discountWhere now productId product d \<and> userEligible db userId d}"
  using assms by (auto simp: getProductDiscounts_def orderByValueThenCreated_def)

text \<open>For a product with a category and a subcategory the \<^verbatim>\<open>where\<close> clause is the scope test.\<close>

lemma discountWhere_scoped:
  assumes "p_categoryId product = Some c" and "p_subcategoryId product = Some sc"
  shows "discountWhere now productId product d \<longleftrightarrow>
           (d_productId d = Some productId \<or> d_categoryId d = Some c \<or> d_subcategoryId d = Some sc
              \<or> (d_productId d = None \<and> d_categoryId d = None \<and> d_subcategoryId d = None))
           \<and> d_isActive d \<and> d_validFrom d \<le> now \<and> now \<le> d_validUntil d"
  using assms by (auto simp: discountWhere_def)

lemma getProductDiscounts_sorted:
  assumes "getProductDiscounts db now productId userId = Inr ds"
  shows "sorted (map (\<lambda>d. (- d_discountValue d, - d_createdAt d)) ds)"
proof -
  from assms obtain product where
    ds: "ds = filter (userEligible db userId)
                (orderByValueThenCreated (filter (discountWhere now productId product) (discounts db)))"
    by (auto simp: getProductDiscounts_def split: option.splits)
  have "sorted (map (\<lambda>d. (- d_discountValue d, - d_createdAt d))
                 (orderByValueThenCreated (filter (discountWhere now productId product) (discounts db))))"
    by (simp add: orderByValueThenCreated_def)
  then show ?thesis
    unfolding ds by (rule sorted_filter)
qed

lemma userEligible_anonymous:
  assumes "\<not> truthyStr userId"
  shows "userEligible db userId d \<longleftrightarrow>
           \<not> (truthyInt (d_usageLimit d) \<and> d_usedCount d \<ge> toNumberInt (d_usageLimit d))"
  using assms by (simp add: userEligible_def)

text \<open>
  Claim C8. Discount resolution returns the discounts whose scope is the product, its
  category, its subcategory or the whole site. For a product without a subcategory the
  disjunct \<^verbatim>\<open>{ subcategoryId: product.subcategoryId }\<close> selects every discount without a
  subcategory: the product \<open>p1\<close> is offered the discount \<open>ONLYP2\<close>, whose scope is the product
  \<open>p2\<close>.
\<close>

theorem C8_discount_of_other_product_returned:
  "getProductDiscounts looseShop 5 ''p1'' None = Inr [onlyP2]
   \<and> d_productId onlyP2 = Some ''p2'' \<and> d_categoryId onlyP2 = None
   \<and> d_subcategoryId onlyP2 = None
   \<and> products looseShop = [looseProduct] \<and> p_id looseProduct = ''p1''
   \<and> p_categoryId looseProduct = Some ''c1'' \<and> p_subcategoryId looseProduct = None"
  by code_simp

subsection \<open>Quantity-tier pricing\<close>

lemma Min_insert_absorb:
  fixes a :: "'a::linorder"
  assumes "finite A" and "b \<in> A" and "b \<le> a"
  shows "Min (insert a A) = Min A"
proof -
  have "A \<noteq> {}" using assms(2) by auto
  then have "Min (insert a A) = min a (Min A)"
    using assms(1) by simp
  moreover have "Min A \<le> a"
    using assms by (meson Min_le order_trans)
  ultimately show ?thesis by (simp add: min_def)
qed

lemma bestRuleLoop_fst:
  assumes "\<forall>r \<in> set rules. qp_quantity r \<le> quantity"
  shows "fst (bestRuleLoop basePrice quantity rules (bestTotal, applied))
           = Min (insert bestTotal (finalPriceForRule basePrice quantity ` set rules))"
  using assms
proof (induction rules arbitrary: bestTotal applied)
  case Nil
  then show ?case by simp
next
  case (Cons r rules)
  let ?f = "finalPriceForRule basePrice quantity"
  have q: "qp_quantity r \<le> quantity" and rest: "\<forall>r \<in> set rules. qp_quantity r \<le> quantity"
    using Cons.prems by simp_all
  show ?case
  proof (cases "?f r < bestTotal")
    case True
    have "fst (bestRuleLoop basePrice quantity (r # rules) (bestTotal, applied))
            = Min (insert (?f r) (?f ` set rules))"
      using True q Cons.IH [OF rest] by simp
    also have "\<dots> = Min (insert bestTotal (insert (?f r) (?f ` set rules)))"
      using True by (intro Min_insert_absorb [symmetric, of _ "?f r"]) auto
    finally show ?thesis by simp
  next
    case False
    have "fst (bestRuleLoop basePrice quantity (r # rules) (bestTotal, applied))
            = Min (insert bestTotal (?f ` set rules))"
      using False q Cons.IH [OF rest] by simp
    also have "\<dots> = Min (insert (?f r) (insert bestTotal (?f ` set rules)))"
      using False by (intro Min_insert_absorb [symmetric, of _ bestTotal]) auto
    finally show ?thesis by (simp add: insert_commute)
  qed
qed

lemma set_quantityPrices:
  "set (quantityPrices db subcategoryId quantity)
     = {r \<in> set (subcategoryQuantityPrices db).
          qp_subcategoryId r = subcategoryId \<and> qp_isActive r \<and> qp_quantity r \<le> quantity}"
  by (auto simp: quantityPrices_def)

text \<open>
  Claim C5. For a line with a subcategory, quantity-tier pricing returns the least of the
  baseline \<open>unitPrice * quantity\<close> and the totals of the active rules of that subcategory whose
  threshold is at most the quantity (a percentage rule takes its percentage off the baseline,
  a fixed rule gives its value as the total); the savings are the baseline minus that total.
  Without a subcategory the result is the baseline with no savings.
\<close>

theorem C5_quantity_tier_price:
  "(truthyStr subcategoryId \<longrightarrow>
      originalPrice (calculateItemQuantityPrice db productId subcategoryId unitPrice quantity)
        = unitPrice * of_int quantity
      \<and> finalPrice (calculateItemQuantityPrice db productId subcategoryId unitPrice quantity)
        = Min (insert (unitPrice * of_int quantity)
                 ((\<lambda>r. case qp_priceType r of
                          QP_PERCENTAGE \<Rightarrow> unitPrice * of_int quantity * (1 - qp_value r / 100)
                        | QP_FIXED_AMOUNT \<Rightarrow> qp_value r) `
                    {r \<in> set (subcategoryQuantityPrices db).
                       qp_subcategoryId r = strOf subcategoryId \<and> qp_isActive r
                       \<and> qp_quantity r \<le> quantity}))
      \<and> totalSavings (calculateItemQuantityPrice db productId subcategoryId unitPrice quantity)
        = unitPrice * of_int quantity
            - finalPrice (calculateItemQuantityPrice db productId subcategoryId unitPrice quantity))
   \<and> (\<not> truthyStr subcategoryId \<longrightarrow>
        originalPrice (calculateItemQuantityPrice db productId subcategoryId unitPrice quantity)
          = unitPrice * of_int quantity
        \<and> finalPrice (calculateItemQuantityPrice db productId subcategoryId unitPrice quantity)
          = unitPrice * of_int quantity
        \<and> totalSavings (calculateItemQuantityPrice db productId subcategoryId unitPrice quantity) = 0)"
proof -
  let ?rules = "quantityPrices db (strOf subcategoryId) quantity"
  let ?loop = "bestRuleLoop unitPrice quantity ?rules (unitPrice * of_int quantity, None)"
  have bound: "\<forall>r \<in> set ?rules. qp_quantity r \<le> quantity"
    by (simp add: set_quantityPrices)
  have best: "fst ?loop = Min (insert (unitPrice * of_int quantity)
                 (finalPriceForRule unitPrice quantity ` set ?rules))"
    by (rule bestRuleLoop_fst [OF bound])
  have a: "truthyStr subcategoryId \<Longrightarrow>
      finalPrice (calculateItemQuantityPrice db productId subcategoryId unitPrice quantity) = fst ?loop
      \<and> originalPrice (calculateItemQuantityPrice db productId subcategoryId unitPrice quantity)
        = unitPrice * of_int quantity
      \<and> totalSavings (calculateItemQuantityPrice db productId subcategoryId unitPrice quantity)
        = unitPrice * of_int quantity - fst ?loop"
    by (simp add: calculateItemQuantityPrice_def split: prod.splits)
  have b: "\<not> truthyStr subcategoryId \<Longrightarrow>
        originalPrice (calculateItemQuantityPrice db productId subcategoryId unitPrice quantity)
          = unitPrice * of_int quantity
        \<and> finalPrice (calculateItemQuantityPrice db productId subcategoryId unitPrice quantity)
          = unitPrice * of_int quantity
        \<and> totalSavings (calculateItemQuantityPrice db productId subcategoryId unitPrice quantity) = 0"
    by (simp add: calculateItemQuantityPrice_def)
  have c: "finalPriceForRule unitPrice quantity
            = (\<lambda>r. case qp_priceType r of
                 QP_PERCENTAGE \<Rightarrow> unitPrice * of_int quantity * (1 - qp_value r / 100)
               | QP_FIXED_AMOUNT \<Rightarrow> qp_value r)"
    by (rule ext) (simp add: finalPriceForRule_def split: priceType.splits)
  show ?thesis
    using a b best by (simp add: set_quantityPrices c)
qed

text \<open>
  Scenario B of the claim: base price 500, the rule of 20 percent from 5 pieces on, 5 pieces
  ordered.
\<close>

theorem C5_scenario_B:
  "truthyStr (Some ''s1'')
   \<and> originalPrice (calculateItemQuantityPrice scenarioB ''p1'' (Some ''s1'') 500 5) = 2500
   \<and> finalPrice (calculateItemQuantityPrice scenarioB ''p1'' (Some ''s1'') 500 5) = 2000
   \<and> totalSavings (calculateItemQuantityPrice scenarioB ''p1'' (Some ''s1'') 500 5) = 500
   \<and> \<not> truthyStr None
   \<and> finalPrice (calculateItemQuantityPrice scenarioB ''p1'' None 500 5) = 2500
   \<and> totalSavings (calculateItemQuantityPrice scenarioB ''p1'' None 500 5) = 0"
proof -
  have t: "truthyStr (Some ''s1'')" and f: "\<not> truthyStr None"
    by (simp_all add: truthyStr_def)
  have rules: "{r \<in> set (subcategoryQuantityPrices scenarioB).
                 qp_subcategoryId r = strOf (Some ''s1'') \<and> qp_isActive r \<and> qp_quantity r \<le> 5}
               = {\<lparr>qp_subcategoryId = ''s1'', qp_quantity = 5, qp_priceType = QP_PERCENTAGE,
                   qp_value = 20, qp_isActive = True\<rparr>}"
    by (auto simp: scenarioB_def emptyDb_def strOf_def)
  show ?thesis
    using t f C5_quantity_tier_price [of "Some ''s1''" scenarioB "''p1''" 500 5]
      C5_quantity_tier_price [of None scenarioB "''p1''" 500 5]
    by (simp add: rules)
qed

subsection \<open>Coupon validation\<close>

text \<open>
  Claim C4, as the code has it. For a percentage coupon whose \<^verbatim>\<open>maxDiscount\<close> is set and not
  0, a successful validation returns an amount of at most \<^verbatim>\<open>maxDiscount\<close>, and
  \<^verbatim>\<open>maxDiscountReached\<close> holds exactly when \<open>orderAmount * discountValue / 100\<close> exceeds it.
\<close>

theorem C4_cap_respected:
  assumes "validateDiscount db now code userId orderAmount = Valid vd"
    and "vd_discountType vd = PERCENTAGE"
    and "vd_maxDiscount vd = Some m" and "m \<noteq> 0"
  shows "vd_discountAmount vd \<le> m
         \<and> (vd_maxDiscountReached vd \<longleftrightarrow> orderAmount * vd_discountValue vd / 100 > m)"
  using assms
  by (auto simp: validateDiscount_def Let_def couponAmount_def truthyNum_def toNumber_def
           split: option.splits if_splits)

theorem C4_cap_respected_witness:
  "validateDiscount cap30Shop 5 ''CAP30'' None 1000
     = Valid \<lparr>vd_id = ''d3'', vd_name = ''CAP30'', vd_discountType = PERCENTAGE,
             vd_discountValue = 10, vd_maxDiscount = Some 30, vd_discountAmount = 30,
             vd_maxDiscountReached = True, vd_minOrderAmount = 0\<rparr>
   \<and> (30::rat) \<noteq> 0 \<and> (30::rat) \<le> 30 \<and> (1000 * 10 / 100 > (30::rat))"
proof -
  have v: "validateDiscount cap30Shop 5 ''CAP30'' None 1000
     = Valid \<lparr>vd_id = ''d3'', vd_name = ''CAP30'', vd_discountType = PERCENTAGE,
             vd_discountValue = 10, vd_maxDiscount = Some 30, vd_discountAmount = 30,
             vd_maxDiscountReached = True, vd_minOrderAmount = 0\<rparr>"
    by code_simp
  show ?thesis
    using v C4_cap_respected [OF v, of 30] by simp
qed

text \<open>
  The claim as it is written fails for a cap stored as 0, which \<^verbatim>\<open>discount.maxDiscount && ...\<close>
  takes for no cap: 10 percent of 100 with \<^verbatim>\<open>maxDiscount = 0\<close> gives the amount 10, above
  the cap, and the flag stays false although the uncapped amount exceeds the cap.
\<close>

theorem C4_zero_cap_counterexample:
  "validateDiscount cap0Shop 5 ''CAP0'' None 100
     = Valid \<lparr>vd_id = ''d0'', vd_name = ''CAP0'', vd_discountType = PERCENTAGE,
             vd_discountValue = 10, vd_maxDiscount = Some 0, vd_discountAmount = 10,
             vd_maxDiscountReached = False, vd_minOrderAmount = 0\<rparr>
   \<and> \<not> ((10::rat) \<le> 0) \<and> (100 * 10 / 100 > (0::rat))"
  by code_simp

text \<open>With a cap of 0 (or none) a percentage coupon is never capped and the flag stays false.\<close>

lemma validateDiscount_without_cap:
  assumes "validateDiscount db now code userId orderAmount = Valid vd"
    and "vd_discountType vd = PERCENTAGE"
    and "vd_maxDiscount vd = Some 0 \<or> vd_maxDiscount vd = None"
  shows "vd_discountAmount vd = orderAmount * vd_discountValue vd / 100
         \<and> \<not> vd_maxDiscountReached vd"
  using assms
  by (auto simp: validateDiscount_def Let_def couponAmount_def truthyNum_def toNumber_def
           split: option.splits if_splits)

text \<open>The order of the checks, in the terms of the model.\<close>

lemma validateDiscount_order:
  "(find (\<lambda>d. d_name d = code \<and> d_isActive d) (discounts db) = None
      \<and> find (\<lambda>d. d_id d = code) (discounts db) = None
      \<longrightarrow> validateDiscount db now code userId orderAmount = Invalid InvalidDiscountCode)
   \<and> (\<forall>d. (find (\<lambda>d. d_name d = code \<and> d_isActive d) (discounts db) = Some d
            \<or> (find (\<lambda>d. d_name d = code \<and> d_isActive d) (discounts db) = None
                \<and> find (\<lambda>d. d_id d = code) (discounts db) = Some d))
        \<longrightarrow>
          (\<not> d_isActive d
             \<longrightarrow> validateDiscount db now code userId orderAmount = Invalid DiscountIsNotActive)
          \<and> (d_isActive d \<and> now < d_validFrom d
             \<longrightarrow> validateDiscount db now code userId orderAmount = Invalid DiscountNotYetValid)
          \<and> (d_isActive d \<and> d_validFrom d \<le> now \<and> d_validUntil d < now
             \<longrightarrow> validateDiscount db now code userId orderAmount = Invalid DiscountHasExpired)
          \<and> (d_isActive d \<and> d_validFrom d \<le> now \<and> now \<le> d_validUntil d
              \<and> (\<exists>l. d_usageLimit d = Some l \<and> l \<noteq> 0 \<and> l \<le> d_usedCount d)
             \<longrightarrow> validateDiscount db now code userId orderAmount = Invalid DiscountUsageLimitReached)
          \<and> (d_isActive d \<and> d_validFrom d \<le> now \<and> now \<le> d_validUntil d
              \<and> \<not> (\<exists>l. d_usageLimit d = Some l \<and> l \<noteq> 0 \<and> l \<le> d_usedCount d)
              \<and> (\<exists>u. userId = Some u \<and> u \<noteq> [] \<and> 0 < d_perUserLimit d
                       \<and> d_perUserLimit d \<le> userUsageCount db (d_id d) u)
             \<longrightarrow> validateDiscount db now code userId orderAmount = Invalid UserUsageLimitReached)
          \<and> (d_isActive d \<and> d_validFrom d \<le> now \<and> now \<le> d_validUntil d
              \<and> \<not> (\<exists>l. d_usageLimit d = Some l \<and> l \<noteq> 0 \<and> l \<le> d_usedCount d)
              \<and> \<not> (\<exists>u. userId = Some u \<and> u \<noteq> [] \<and> 0 < d_perUserLimit d
                       \<and> d_perUserLimit d \<le> userUsageCount db (d_id d) u)
              \<and> orderAmount < toNumber (d_minOrderAmount d)
             \<longrightarrow> validateDiscount db now code userId orderAmount
                   = Invalid (MinimumOrderAmountRequired (toNumber (d_minOrderAmount d))))
          \<and> (d_isActive d \<and> d_validFrom d \<le> now \<and> now \<le> d_validUntil d
              \<and> \<not> (\<exists>l. d_usageLimit d = Some l \<and> l \<noteq> 0 \<and> l \<le> d_usedCount d)
              \<and> \<not> (\<exists>u. userId = Some u \<and> u \<noteq> [] \<and> 0 < d_perUserLimit d
                       \<and> d_perUserLimit d \<le> userUsageCount db (d_id d) u)
              \<and> toNumber (d_minOrderAmount d) \<le> orderAmount
             \<longrightarrow> (\<exists>vd. validateDiscount db now code userId orderAmount = Valid vd
                       \<and> vd_id vd = d_id d)))"
proof -
  have lim: "\<And>d. (truthyInt (d_usageLimit d) \<and> toNumberInt (d_usageLimit d) \<le> d_usedCount d)
               = (\<exists>l. d_usageLimit d = Some l \<and> l \<noteq> 0 \<and> l \<le> d_usedCount d)"
    by (auto simp: truthyInt_def toNumberInt_def split: option.splits)
  have usr: "\<And>d. (0 < d_perUserLimit d \<and> truthyStr userId
                    \<and> d_perUserLimit d \<le> userUsageCount db (d_id d) (strOf userId))
               = (\<exists>u. userId = Some u \<and> u \<noteq> [] \<and> 0 < d_perUserLimit d
                       \<and> d_perUserLimit d \<le> userUsageCount db (d_id d) u)"
    by (auto simp: truthyStr_def strOf_def split: option.splits)
  have minA: "\<And>d. (if truthyNum (d_minOrderAmount d) then toNumber (d_minOrderAmount d) else 0)
               = toNumber (d_minOrderAmount d)"
    by (auto simp: truthyNum_def toNumber_def split: option.splits)
  have found: "\<And>d. (find (\<lambda>d. d_name d = code \<and> d_isActive d) (discounts db) = Some d
            \<or> (find (\<lambda>d. d_name d = code \<and> d_isActive d) (discounts db) = None
                \<and> find (\<lambda>d. d_id d = code) (discounts db) = Some d))
          \<Longrightarrow> findDiscountByCode db code = Some d"
    by (auto simp: findDiscountByCode_def)
  have nf: "find (\<lambda>d. d_name d = code \<and> d_isActive d) (discounts db) = None
      \<and> find (\<lambda>d. d_id d = code) (discounts db) = None
      \<Longrightarrow> findDiscountByCode db code = None"
    by (auto simp: findDiscountByCode_def)
  have body: "\<And>d. findDiscountByCode db code = Some d \<Longrightarrow>
      validateDiscount db now code userId orderAmount =
        (if \<not> d_isActive d then Invalid DiscountIsNotActive
         else if now < d_validFrom d then Invalid DiscountNotYetValid
         else if now > d_validUntil d then Invalid DiscountHasExpired
         else if (\<exists>l. d_usageLimit d = Some l \<and> l \<noteq> 0 \<and> l \<le> d_usedCount d)
           then Invalid DiscountUsageLimitReached
         else if (\<exists>u. userId = Some u \<and> u \<noteq> [] \<and> 0 < d_perUserLimit d
                       \<and> d_perUserLimit d \<le> userUsageCount db (d_id d) u)
           then Invalid UserUsageLimitReached
         else if orderAmount < toNumber (d_minOrderAmount d)
           then Invalid (MinimumOrderAmountRequired (toNumber (d_minOrderAmount d)))
         else Valid \<lparr>vd_id = d_id d, vd_name = d_name d,
                           vd_discountType = d_discountType d,
                           vd_discountValue = d_discountValue d,
                           vd_maxDiscount = d_maxDiscount d,
                           vd_discountAmount = fst (couponAmount d orderAmount),
                           vd_maxDiscountReached = snd (couponAmount d orderAmount),
                           vd_minOrderAmount = toNumber (d_minOrderAmount d)\<rparr>)"
    unfolding validateDiscount_def Let_def minA
    by (simp only: option.case lim [symmetric] usr [symmetric] split: prod.splits) (auto)
  show ?thesis
  proof (intro conjI allI impI)
    show "validateDiscount db now code userId orderAmount = Invalid InvalidDiscountCode"
      if "find (\<lambda>d. d_name d = code \<and> d_isActive d) (discounts db) = None
      \<and> find (\<lambda>d. d_id d = code) (discounts db) = None"
      using nf [OF that] by (simp add: validateDiscount_def)
  qed (use found body in \<open>simp_all\<close>)
qed

text \<open>
  Claim C7, as the code has it. The discount is looked up by its name among the active
  discounts, then by its id among all discounts. Neither found: invalid code. Otherwise the
  checks run in this order and the first that fails gives the message: not active; not yet
  valid; expired; usage limit reached, which needs a \<^verbatim>\<open>usageLimit\<close> that is set and not 0
  with \<^verbatim>\<open>usedCount\<close> at or above it; per-user limit reached, which needs a non-empty user
  id and a positive \<^verbatim>\<open>perUserLimit\<close> with the user's number of usage rows of the discount
  at or above it; order amount below \<^verbatim>\<open>minOrderAmount\<close>, an unset one counting as 0 (the
  message carries the minimum). When all pass, the validation succeeds for the discount
  found.
\<close>

theorem C7_validation_order:
  "(find (\<lambda>d. d_name d = code \<and> d_isActive d) (discounts db) = None
      \<and> find (\<lambda>d. d_id d = code) (discounts db) = None
      \<longrightarrow> validateDiscount db now code userId orderAmount = Invalid InvalidDiscountCode)
   \<and> (\<forall>d. (find (\<lambda>d. d_name d = code \<and> d_isActive d) (discounts db) = Some d
            \<or> (find (\<lambda>d. d_name d = code \<and> d_isActive d) (discounts db) = None
                \<and> find (\<lambda>d. d_id d = code) (discounts db) = Some d))
        \<longrightarrow>
          (\<not> d_isActive d
             \<longrightarrow> validateDiscount db now code userId orderAmount = Invalid DiscountIsNotActive)
          \<and> (d_isActive d \<and> now < d_validFrom d
             \<longrightarrow> validateDiscount db now code userId orderAmount = Invalid DiscountNotYetValid)
          \<and> (d_isActive d \<and> d_validFrom d \<le> now \<and> d_validUntil d < now
             \<longrightarrow> validateDiscount db now code userId orderAmount = Invalid DiscountHasExpired)
          \<and> (d_isActive d \<and> d_validFrom d \<le> now \<and> now \<le> d_validUntil d
              \<and> (\<exists>l. d_usageLimit d = Some l \<and> l \<noteq> 0 \<and> l \<le> d_usedCount d)
             \<longrightarrow> validateDiscount db now code userId orderAmount = Invalid DiscountUsageLimitReached)
          \<and> (d_isActive d \<and> d_validFrom d \<le> now \<and> now \<le> d_validUntil d
              \<and> \<not> (\<exists>l. d_usageLimit d = Some l \<and> l \<noteq> 0 \<and> l \<le> d_usedCount d)
              \<and> (\<exists>u. userId = Some u \<and> u \<noteq> [] \<and> 0 < d_perUserLimit d
                       \<and> d_perUserLimit d \<le> int (length (filter (\<lambda>r. u_discountId r = d_id d \<and> u_userId r = u)
                                            (discountUsages db))))
             \<longrightarrow> validateDiscount db now code userId orderAmount = Invalid UserUsageLimitReached)
          \<and> (d_isActive d \<and> d_validFrom d \<le> now \<and> now \<le> d_validUntil d
              \<and> \<not> (\<exists>l. d_usageLimit d = Some l \<and> l \<noteq> 0 \<and> l \<le> d_usedCount d)
              \<and> \<not> (\<exists>u. userId = Some u \<and> u \<noteq> [] \<and> 0 < d_perUserLimit d
                       \<and> d_perUserLimit d \<le> int (length (filter (\<lambda>r. u_discountId r = d_id d \<and> u_userId r = u)
                                            (discountUsages db))))
              \<and> orderAmount < (case d_minOrderAmount d of None \<Rightarrow> 0 | Some a \<Rightarrow> a)
             \<longrightarrow> validateDiscount db now code userId orderAmount
                   = Invalid (MinimumOrderAmountRequired ((case d_minOrderAmount d of None \<Rightarrow> 0 | Some a \<Rightarrow> a))))
          \<and> (d_isActive d \<and> d_validFrom d \<le> now \<and> now \<le> d_validUntil d
              \<and> \<not> (\<exists>l. d_usageLimit d = Some l \<and> l \<noteq> 0 \<and> l \<le> d_usedCount d)
              \<and> \<not> (\<exists>u. userId = Some u \<and> u \<noteq> [] \<and> 0 < d_perUserLimit d
                       \<and> d_perUserLimit d \<le> int (length (filter (\<lambda>r. u_discountId r = d_id d \<and> u_userId r = u)
                                            (discountUsages db))))
              \<and> (case d_minOrderAmount d of None \<Rightarrow> 0 | Some a \<Rightarrow> a) \<le> orderAmount
             \<longrightarrow> (\<exists>vd. validateDiscount db now code userId orderAmount = Valid vd
                       \<and> vd_id vd = d_id d)))"
  using validateDiscount_order [of code db now userId orderAmount]
  unfolding toNumber_def userUsageCount_def .

text \<open>
  Scenario C (a fixed 50 from 100 on, order amount 80) and the lookup by id of a coupon that
  is switched off.
\<close>

theorem C7_scenario_C:
  "find (\<lambda>d. d_name d = ''SAVE50'' \<and> d_isActive d) (discounts scenarioC) = Some save50On
   \<and> d_isActive save50On \<and> d_validFrom save50On \<le> 5 \<and> 5 \<le> d_validUntil save50On
   \<and> d_minOrderAmount save50On = Some 100 \<and> (80::rat) < 100
   \<and> validateDiscount scenarioC 5 ''SAVE50'' None 80 = Invalid (MinimumOrderAmountRequired 100)
   \<and> find (\<lambda>d. d_name d = ''d50'' \<and> d_isActive d) (discounts save50Shop) = None
   \<and> find (\<lambda>d. d_id d = ''d50'') (discounts save50Shop) = Some save50
   \<and> \<not> d_isActive save50
   \<and> validateDiscount save50Shop 5 ''d50'' None 80 = Invalid DiscountIsNotActive"
proof -
  have a: "find (\<lambda>d. d_name d = ''SAVE50'' \<and> d_isActive d) (discounts scenarioC) = Some save50On"
    by code_simp
  have b: "d_isActive save50On \<and> d_validFrom save50On \<le> 5 \<and> 5 \<le> d_validUntil save50On
     \<and> d_usageLimit save50On = None \<and> d_minOrderAmount save50On = Some 100"
    by code_simp
  have c: "find (\<lambda>d. d_name d = ''d50'' \<and> d_isActive d) (discounts save50Shop) = None"
    "find (\<lambda>d. d_id d = ''d50'') (discounts save50Shop) = Some save50" "\<not> d_isActive save50"
    by code_simp+
  show ?thesis
    using a b c C7_validation_order [of "''SAVE50''" scenarioC 5 None 80]
      C7_validation_order [of "''d50''" save50Shop 5 None 80]
    by simp
qed

text \<open>
  The claim as it is written fails at three places. An inactive coupon addressed by its
  name is left out by the name lookup, so the answer is the invalid-code message, not the
  not-active one. A \<^verbatim>\<open>usageLimit\<close> of 0 is taken for no limit: with \<^verbatim>\<open>usedCount\<close> 5 the
  coupon validates. A \<^verbatim>\<open>perUserLimit\<close> of 0 switches the per-user check off: the user who
  has used the coupon once validates it again.
\<close>

theorem C7_lookup_and_zero_limits_counterexample:
  "discounts save50Shop = [save50] \<and> d_name save50 = ''SAVE50'' \<and> \<not> d_isActive save50
   \<and> validateDiscount save50Shop 5 ''SAVE50'' None 100 = Invalid InvalidDiscountCode
   \<and> validateDiscount save50Shop 5 ''SAVE50'' None 100 \<noteq> Invalid DiscountIsNotActive
   \<and> d_usageLimit limit0 = Some 0 \<and> d_usedCount limit0 = 5
   \<and> validateDiscount zeroLimitShop 5 ''LIMIT0'' None 100
       = Valid \<lparr>vd_id = ''dl'', vd_name = ''LIMIT0'', vd_discountType = PERCENTAGE,
               vd_discountValue = 10, vd_maxDiscount = None, vd_discountAmount = 10,
               vd_maxDiscountReached = False, vd_minOrderAmount = 0\<rparr>
   \<and> d_perUserLimit perUser0 = 0
   \<and> discountUsages zeroLimitShop
       = [\<lparr>u_discountId = ''dq'', u_userId = ''u1'', u_orderId = ''o0'', u_discountAmount = 10\<rparr>]
   \<and> validateDiscount zeroLimitShop 5 ''PERUSER0'' (Some ''u1'') 100
       = Valid \<lparr>vd_id = ''dq'', vd_name = ''PERUSER0'', vd_discountType = PERCENTAGE,
               vd_discountValue = 10, vd_maxDiscount = None, vd_discountAmount = 10,
               vd_maxDiscountReached = False, vd_minOrderAmount = 0\<rparr>"
  by code_simp

subsection \<open>Best discount of a line\<close>










subsection \<open>Cart discount calculator\<close>

lemma toFixed2_zero: "toFixed2 0 = 0"
proof -
  have "\<lfloor>(1::rat) / 2\<rfloor> = 0"
    by (rule floor_unique) simp_all
  then show ?thesis
    by (simp add: toFixed2_def)
qed

text \<open>
  Claim C2. With a coupon code supplied (a non-empty string) the cart discount calculator
  always returns a result; it holds at most one descriptor and none of type
  \<open>PRODUCT_LEVEL\<close>, whatever the products are eligible for. When the validation fails with
  a message, the total discount is 0, the message is the one recorded error and no discount
  is applied; when it succeeds, the one descriptor is the \<open>ORDER_LEVEL\<close> coupon with the
  validated amount.
\<close>

theorem C2_coupon_only:
  assumes "truthyStr discountCode"
  shows "\<exists>r. calculateCartDiscounts db now cartItems userId discountCode = Inr r
     \<and> (\<forall>a \<in> set (cd_appliedDiscounts r). ad_type a \<noteq> PRODUCT_LEVEL)
     \<and> length (cd_appliedDiscounts r) \<le> 1
     \<and> (\<forall>m. validateDiscount db now (strOf discountCode) userId (cartSubtotal cartItems) = Invalid m
           \<longrightarrow> cd_totalDiscount r = 0 \<and> cd_errors r = Some [m] \<and> cd_appliedDiscounts r = [])
     \<and> (\<forall>vd. validateDiscount db now (strOf discountCode) userId (cartSubtotal cartItems) = Valid vd
           \<longrightarrow> cd_totalDiscount r = toFixed2 (vd_discountAmount vd) \<and> cd_errors r = None
               \<and> map ad_type (cd_appliedDiscounts r) = [ORDER_LEVEL]
               \<and> map ad_amount (cd_appliedDiscounts r) = [vd_discountAmount vd])"
proof (cases "validateDiscount db now (strOf discountCode) userId (cartSubtotal cartItems)")
  case (Invalid m)
  then show ?thesis
    using assms by (simp add: calculateCartDiscounts_def Let_def toFixed2_zero)
next
  case (Valid vd)
  then show ?thesis
    using assms by (simp add: calculateCartDiscounts_def Let_def)
qed

text \<open>
  The product of scenario A is eligible for the sitewide discount; with the unknown code
  \<open>NOPE\<close> the cart gets no discount at all.
\<close>

theorem C2_scenario_invalid_coupon:
  "truthyStr (Some ''NOPE'')
   \<and> getProductDiscounts scenarioA 5 ''p1'' None = Inr [site10]
   \<and> validateDiscount scenarioA 5 (strOf (Some ''NOPE'')) None (cartSubtotal cartA)
       = Invalid InvalidDiscountCode
   \<and> calculateCartDiscounts scenarioA 5 cartA None (Some ''NOPE'')
       = Inr \<lparr>cd_subtotal = 1000, cd_totalDiscount = 0, cd_finalTotal = 1000,
              cd_appliedDiscounts = [], cd_errors = Some [InvalidDiscountCode],
              cd_discountCode = Some ''NOPE''\<rparr>"
proof -
  have t: "truthyStr (Some ''NOPE'')"
    by (simp add: truthyStr_def)
  have v: "validateDiscount scenarioA 5 (strOf (Some ''NOPE'')) None (cartSubtotal cartA)
       = Invalid InvalidDiscountCode"
    and g: "getProductDiscounts scenarioA 5 ''p1'' None = Inr [site10]"
    and s: "toFixed2 (cartSubtotal cartA) = 1000" "toFixed2 (max 0 (cartSubtotal cartA - 0)) = 1000"
    by code_simp+
  from C2_coupon_only [OF t, of scenarioA 5 cartA None] v
  obtain r where r: "calculateCartDiscounts scenarioA 5 cartA None (Some ''NOPE'') = Inr r"
    "cd_totalDiscount r = 0" "cd_errors r = Some [InvalidDiscountCode]" "cd_appliedDiscounts r = []"
    by auto
  have "cd_subtotal r = 1000" "cd_finalTotal r = 1000" "cd_discountCode r = Some ''NOPE''"
    using r(1) t s by (auto simp: calculateCartDiscounts_def Let_def v split: prod.splits)
  then have "r = \<lparr>cd_subtotal = 1000, cd_totalDiscount = 0, cd_finalTotal = 1000,
              cd_appliedDiscounts = [], cd_errors = Some [InvalidDiscountCode],
              cd_discountCode = Some ''NOPE''\<rparr>"
    using r(2-4) by simp
  then show ?thesis
    using t g v r(1) by simp
qed

subsection \<open>The effective final amount\<close>

lemma detailsLoop_result:
  assumes "detailsLoop db items (s0, acc) = Inr (s, details)"
  shows "s = s0 + (\<Sum>i\<leftarrow>items. case find (\<lambda>p. p_id p = fc_productId i) (products db) of
                                  None \<Rightarrow> 0
                                | Some p \<Rightarrow> unitPriceOf p * of_int (fc_quantity i))
         \<and> map (\<lambda>d. (p_id (iw_product d), iw_quantity d)) details
             = map (\<lambda>d. (p_id (iw_product d), iw_quantity d)) acc
               @ map (\<lambda>i. (fc_productId i, fc_quantity i)) items"
  using assms
proof (induction items arbitrary: s0 acc)
  case Nil
  then show ?case by simp
next
  case (Cons i items)
  from Cons.prems obtain p where p: "find (\<lambda>p. p_id p = fc_productId i) (products db) = Some p"
    by (auto split: option.splits)
  then have id: "p_id p = fc_productId i"
    by (auto simp: find_Some_iff)
  have run: "detailsLoop db items
               (s0 + unitPriceOf p * of_int (fc_quantity i),
                acc @ [\<lparr>iw_product = p, iw_price = unitPriceOf p, iw_quantity = fc_quantity i,
                        iw_itemTotal = unitPriceOf p * of_int (fc_quantity i)\<rparr>])
             = Inr (s, details)"
    using Cons.prems p by simp
  from Cons.IH [OF run] show ?case
    using p id by (simp add: add.assoc)
qed

lemma calculateProductDiscount_none:
  assumes "calculateProductDiscount db now productId userId = Inr pd" and "\<not> pd_hasDiscount pd"
  shows "pd_discountAmount pd = 0"
  using assms
  by (auto simp: calculateProductDiscount_def Let_def split: option.splits sum.splits if_splits list.splits)

lemma productDiscountsLoop_result:
  assumes "productDiscountsLoop db now userId details (p0, a0) = Inr (pds, applied)"
  shows "pds = p0 + (\<Sum>d\<leftarrow>details. case calculateProductDiscount db now (p_id (iw_product d)) userId of
                                   Inl e \<Rightarrow> 0
                                 | Inr pd \<Rightarrow> pd_discountAmount pd * of_int (iw_quantity d))"
  using assms
proof (induction details arbitrary: p0 a0)
  case Nil
  then show ?case by simp
next
  case (Cons d details)
  from Cons.prems obtain pd where pd: "calculateProductDiscount db now (p_id (iw_product d)) userId = Inr pd"
    by (auto split: sum.splits)
  show ?case
  proof (cases "pd_hasDiscount pd")
    case True
    with Cons.prems pd obtain best where best: "pd_bestDiscount pd = Some best"
      by (auto split: option.splits)
    have run: "productDiscountsLoop db now userId details
                 (p0 + pd_discountAmount pd * of_int (iw_quantity d),
                  a0 @ [ProductDescriptor (p_id (iw_product d)) best
                          (pd_discountAmount pd * of_int (iw_quantity d))])
               = Inr (pds, applied)"
      using Cons.prems pd True best by simp
    from Cons.IH [OF run] show ?thesis
      using pd by (simp add: add.assoc)
  next
    case False
    have run: "productDiscountsLoop db now userId details (p0, a0) = Inr (pds, applied)"
      using Cons.prems pd False by simp
    from Cons.IH [OF run] show ?thesis
      using pd calculateProductDiscount_none [OF pd False] by simp
  qed
qed

lemma sum_list_map_key:
  assumes "map k xs = map k' ys" and "\<And>x. f x = g (k x)" and "\<And>y. f' y = g (k' y)"
  shows "sum_list (map f xs) = (sum_list (map f' ys) :: rat)"
proof -
  have "map f xs = map g (map k xs)" using assms(2) by simp
  also have "\<dots> = map g (map k' ys)" using assms(1) by simp
  also have "\<dots> = map f' ys" using assms(3) by simp
  finally show ?thesis by simp
qed

text \<open>
  The amount \<^verbatim>\<open>calculateProductDiscount\<close> reports for a product with applicable discounts is
  the greatest of their amounts on the unit price.
\<close>

lemma calculateProductDiscount_best:
  assumes "find (\<lambda>p. p_id p = productId) (products db) = Some product"
    and "getProductDiscounts db now productId userId = Inr ds" and "ds \<noteq> []"
  shows "\<exists>pd. calculateProductDiscount db now productId userId = Inr pd \<and> pd_hasDiscount pd
           \<and> pd_discountAmount pd = Max (unitDiscountAmount (unitPriceOf product) ` set ds)"
proof -
  define key :: "pricedDiscount \<Rightarrow> rat" where "key = (\<lambda>x. - pr_calculatedAmount x)"
  define xs where "xs = sort_key key (map (withUnitAmount (unitPriceOf product)) ds)"
  have set_xs: "set xs = withUnitAmount (unitPriceOf product) ` set ds"
    by (simp add: xs_def)
  have "xs \<noteq> []"
    using assms(3) set_xs by (metis empty_is_image set_empty)
  then obtain b rest where xs: "xs = b # rest"
    by (cases xs) auto
  have "sorted (map key xs)"
    by (simp add: xs_def)
  then have least: "\<forall>y \<in> set xs. key b \<le> key y"
    unfolding xs by auto
  have amount: "pr_calculatedAmount ` set xs = unitDiscountAmount (unitPriceOf product) ` set ds"
    unfolding set_xs by (auto simp: withUnitAmount_def image_iff)
  have "pr_calculatedAmount b = Max (pr_calculatedAmount ` set xs)"
  proof (rule Max_eqI [symmetric])
    show "finite (pr_calculatedAmount ` set xs)" by simp
    show "y \<le> pr_calculatedAmount b" if "y \<in> pr_calculatedAmount ` set xs" for y
      using that least by (auto simp: key_def)
    show "pr_calculatedAmount b \<in> pr_calculatedAmount ` set xs"
      unfolding xs by simp
  qed
  then have best: "pr_calculatedAmount b = Max (unitDiscountAmount (unitPriceOf product) ` set ds)"
    using amount by simp
  have eq: "sort_key (\<lambda>x. - pr_calculatedAmount x) (map (withUnitAmount (unitPriceOf product)) ds)
              = b # rest"
    using xs by (simp add: xs_def key_def)
  have "calculateProductDiscount db now productId userId
          = Inr \<lparr>pd_hasDiscount = True, pd_originalPrice = unitPriceOf product,
                 pd_finalPrice = pr_finalPrice b, pd_discountAmount = pr_calculatedAmount b,
                 pd_applicableDiscounts = b # rest, pd_bestDiscount = Some b\<rparr>"
    using assms by (simp add: calculateProductDiscount_def Let_def eq)
  then show ?thesis
    using best by simp
qed

text \<open>
  Claim C3, as the code has it. The effective \<^verbatim>\<open>calculateFinalAmountWithDiscounts\<close> (the
  second declaration) applies the coupon and the product discounts together: when the coupon
  validates against the subtotal, the returned \<^verbatim>\<open>totalDiscount\<close> is, rounded to two
  decimals, the coupon amount plus the sum over the cart lines of the best product-discount
  amount of the line's product times the line's quantity.
\<close>

theorem C3_total_discount:
  assumes "calculateFinalAmountWithDiscounts db now cartItems shippingState userId discountCode = Inr r"
    and "truthyStr discountCode"
    and "validateDiscount db now (strOf discountCode) userId
           (\<Sum>i\<leftarrow>cartItems. case find (\<lambda>p. p_id p = fc_productId i) (products db) of
                                None \<Rightarrow> 0
                              | Some p \<Rightarrow> unitPriceOf p * of_int (fc_quantity i)) = Valid vd"
  shows "fa_totalDiscount r
           = toFixed2 (vd_discountAmount vd
               + (\<Sum>i\<leftarrow>cartItems. case calculateProductDiscount db now (fc_productId i) userId of
                                     Inl e \<Rightarrow> 0
                                   | Inr pd \<Rightarrow> pd_discountAmount pd * of_int (fc_quantity i)))"
proof -
  let ?sub = "\<Sum>i\<leftarrow>cartItems. case find (\<lambda>p. p_id p = fc_productId i) (products db) of
                                None \<Rightarrow> 0
                              | Some p \<Rightarrow> unitPriceOf p * of_int (fc_quantity i)"
  from assms(1) obtain s details where dl: "detailsLoop db cartItems (0, []) = Inr (s, details)"
    by (auto simp: calculateFinalAmountWithDiscounts_def split: sum.splits)
  from detailsLoop_result [OF dl]
  have s: "s = ?sub"
    and ids: "map (\<lambda>d. (p_id (iw_product d), iw_quantity d)) details
                = map (\<lambda>i. (fc_productId i, fc_quantity i)) cartItems"
    by simp_all
  have v: "validateDiscount db now (strOf discountCode) userId s = Valid vd"
    using assms(3) s by simp
  from assms(1) dl v assms(2) obtain pds applied where
    pl: "productDiscountsLoop db now userId details
           (0, [CodeDescriptor vd (vd_discountAmount vd)]) = Inr (pds, applied)"
    by (auto simp: calculateFinalAmountWithDiscounts_def split: sum.splits)
  have tot: "fa_totalDiscount r = toFixed2 (vd_discountAmount vd + pds)"
    using assms(1,2) dl v pl
    by (auto simp: calculateFinalAmountWithDiscounts_def Let_def split: jsValue.splits)
  have "pds = (\<Sum>d\<leftarrow>details. case calculateProductDiscount db now (p_id (iw_product d)) userId of
                                   Inl e \<Rightarrow> 0
                                 | Inr pd \<Rightarrow> pd_discountAmount pd * of_int (iw_quantity d))"
    using productDiscountsLoop_result [OF pl] by simp
  also have "\<dots> = (\<Sum>i\<leftarrow>cartItems. case calculateProductDiscount db now (fc_productId i) userId of
                                     Inl e \<Rightarrow> 0
                                   | Inr pd \<Rightarrow> pd_discountAmount pd * of_int (fc_quantity i))"
    by (rule sum_list_map_key [OF ids, where g = "\<lambda>(pid, q).
            case calculateProductDiscount db now pid userId of
              Inl e \<Rightarrow> 0 | Inr pd \<Rightarrow> pd_discountAmount pd * of_int q"]) simp_all
  finally show ?thesis
    using tot by simp
qed


text \<open>
  A coupon of 5 together with the sitewide 10 percent on two pieces at 500: 5 + 50 * 2.
\<close>

theorem C3_scenario_coupon_and_product_discount:
  "truthyStr (Some ''FIVE'')
   \<and> validateDiscount fiveShop 5 ''FIVE'' None 1000
       = Valid \<lparr>vd_id = ''d9'', vd_name = ''FIVE'', vd_discountType = FIXED_AMOUNT,
               vd_discountValue = 5, vd_maxDiscount = None, vd_discountAmount = 5,
               vd_maxDiscountReached = False, vd_minOrderAmount = 0\<rparr>
   \<and> map_sum id pd_discountAmount (calculateProductDiscount fiveShop 5 ''p1'' None) = Inr 50
   \<and> map_sum id fa_totalDiscount
        (calculateFinalAmountWithDiscounts fiveShop 5 fiveCart (Some ''Kerala'') None (Some ''FIVE''))
       = Inr (5 + 50 * 2)"
proof -
  let ?vd = "\<lparr>vd_id = ''d9'', vd_name = ''FIVE'', vd_discountType = FIXED_AMOUNT,
               vd_discountValue = 5, vd_maxDiscount = None, vd_discountAmount = 5,
               vd_maxDiscountReached = False, vd_minOrderAmount = 0\<rparr>"
  have t: "truthyStr (Some ''FIVE'')"
    by (simp add: truthyStr_def)
  have "\<not> isl (calculateFinalAmountWithDiscounts fiveShop 5 fiveCart (Some ''Kerala'') None (Some ''FIVE''))"
    by code_simp
  then obtain r where r: "calculateFinalAmountWithDiscounts fiveShop 5 fiveCart (Some ''Kerala'')
                            None (Some ''FIVE'') = Inr r"
    by (cases "calculateFinalAmountWithDiscounts fiveShop 5 fiveCart (Some ''Kerala'') None (Some ''FIVE'')")
       auto
  have v: "validateDiscount fiveShop 5 (strOf (Some ''FIVE'')) None
             (\<Sum>i\<leftarrow>fiveCart. case find (\<lambda>p. p_id p = fc_productId i) (products fiveShop) of
                                None \<Rightarrow> 0
                              | Some p \<Rightarrow> unitPriceOf p * of_int (fc_quantity i)) = Valid ?vd"
    by code_simp
  have v': "validateDiscount fiveShop 5 ''FIVE'' None 1000 = Valid ?vd"
    and p: "map_sum id pd_discountAmount (calculateProductDiscount fiveShop 5 ''p1'' None) = Inr 50"
    and e: "toFixed2 (vd_discountAmount ?vd
               + (\<Sum>i\<leftarrow>fiveCart. case calculateProductDiscount fiveShop 5 (fc_productId i) None of
                                     Inl e \<Rightarrow> 0
                                   | Inr pd \<Rightarrow> pd_discountAmount pd * of_int (fc_quantity i)))
            = 5 + 50 * 2"
    by code_simp+
  have "fa_totalDiscount r = 5 + 50 * 2"
    using C3_total_discount [OF r t v] e by simp
  then show ?thesis
    using t v' p r by simp
qed

text \<open>
  The claim as it is written leaves the rounding out: for one piece at 10.01 the coupon gives
  5 and the product discount 1.001, and the returned total discount is 6, not 6.001.
\<close>

theorem C3_rounding_counterexample:
  "validateDiscount centShop 5 ''FIVE'' None (1001 / 100)
       = Valid \<lparr>vd_id = ''d9'', vd_name = ''FIVE'', vd_discountType = FIXED_AMOUNT,
               vd_discountValue = 5, vd_maxDiscount = None, vd_discountAmount = 5,
               vd_maxDiscountReached = False, vd_minOrderAmount = 0\<rparr>
   \<and> map_sum id pd_discountAmount (calculateProductDiscount centShop 5 ''p1'' None)
       = Inr (1001 / 1000)
   \<and> map_sum id fa_totalDiscount
        (calculateFinalAmountWithDiscounts centShop 5 centCart (Some ''Kerala'') None (Some ''FIVE''))
       = Inr 6
   \<and> (5::rat) + 1001 / 1000 * 1 \<noteq> 6"
  by code_simp

subsection \<open>Usage recording\<close>

lemma find_incrementDiscountStats:
  assumes "find (\<lambda>d. d_id d = i) ds = Some d"
  shows "find (\<lambda>d. d_id d = i) (incrementDiscountStats i a ds)
           = Some (d\<lparr>d_usedCount := d_usedCount d + 1, d_totalDiscounts := d_totalDiscounts d + a\<rparr>)"
  using assms by (induction ds) (auto simp: incrementDiscountStats_def)

lemma find_order_update:
  assumes "find (\<lambda>r. o_id r = i) os = Some ord"
  shows "find (\<lambda>r. o_id r = i)
           (map (\<lambda>r. if o_id r = i
                      then r\<lparr>o_discount := o_discount r + a, o_totalAmount := o_totalAmount r - a\<rparr>
                      else r) os)
           = Some (ord\<lparr>o_discount := o_discount ord + a, o_totalAmount := o_totalAmount ord - a\<rparr>)"
  using assms by (induction os) auto

lemma applyDiscount_success:
  assumes "applyDiscount db now orderId discountId userId = Inr (usage, db')"
  shows "\<exists>d ord. find (\<lambda>d. d_id d = discountId) (discounts db) = Some d
           \<and> find (\<lambda>r. o_id r = orderId) (orders db) = Some ord
           \<and> find (\<lambda>u. u_discountId u = discountId \<and> u_orderId u = orderId) (discountUsages db) = None
           \<and> usage = \<lparr>u_discountId = discountId, u_userId = userId, u_orderId = orderId,
                       u_discountAmount = fst (couponAmount d (o_subtotal ord))\<rparr>
           \<and> db' = db\<lparr>orders :=
                          map (\<lambda>r. if o_id r = orderId
                                    then r\<lparr>o_discount := o_discount r + u_discountAmount usage,
                                           o_totalAmount := o_totalAmount r - u_discountAmount usage\<rparr>
                                    else r) (orders db),
                        discountUsages := discountUsages db @ [usage],
                        discounts := incrementDiscountStats discountId (u_discountAmount usage) (discounts db)\<rparr>"
  using assms
  by (auto simp: applyDiscount_def Let_def split: option.splits if_splits)

lemma applyDiscount_existing:
  assumes "find (\<lambda>u. u_discountId u = discountId \<and> u_orderId u = orderId) (discountUsages db) \<noteq> None"
  shows "\<exists>e. applyDiscount db now orderId discountId userId = Inl e"
  using assms
  by (auto simp: applyDiscount_def Let_def split: option.splits)

text \<open>
  \<^verbatim>\<open>applyDiscount\<close> records a usage once: a successful call appends exactly one usage row
  for the discount, the user and the order, raises \<^verbatim>\<open>usedCount\<close> by 1 and
  \<^verbatim>\<open>totalDiscounts\<close> by the amount it takes off the order, and every later call for the
  same discount and order, by whichever user, is refused.
\<close>

lemma applyDiscount_recorded_once:
  "applyDiscount db now orderId discountId userId = Inr (usage, db') \<longrightarrow>
      u_discountId usage = discountId \<and> u_userId usage = userId \<and> u_orderId usage = orderId
      \<and> discountUsages db' = discountUsages db @ [usage]
      \<and> (\<exists>d. find (\<lambda>d. d_id d = discountId) (discounts db) = Some d
            \<and> find (\<lambda>d. d_id d = discountId) (discounts db')
                = Some (d\<lparr>d_usedCount := d_usedCount d + 1,
                          d_totalDiscounts := d_totalDiscounts d + u_discountAmount usage\<rparr>))
      \<and> (\<exists>ord. find (\<lambda>r. o_id r = orderId) (orders db) = Some ord
            \<and> find (\<lambda>r. o_id r = orderId) (orders db')
                = Some (ord\<lparr>o_discount := o_discount ord + u_discountAmount usage,
                            o_totalAmount := o_totalAmount ord - u_discountAmount usage\<rparr>))
      \<and> (\<forall>now' userId'. \<exists>e. applyDiscount db' now' orderId discountId userId' = Inl e)"
proof (intro conjI impI)
  assume ok: "applyDiscount db now orderId discountId userId = Inr (usage, db')"
  from applyDiscount_success [OF ok] obtain d ord where
    d: "find (\<lambda>d. d_id d = discountId) (discounts db) = Some d"
    and ord: "find (\<lambda>r. o_id r = orderId) (orders db) = Some ord"
    and usage: "usage = \<lparr>u_discountId = discountId, u_userId = userId, u_orderId = orderId,
                       u_discountAmount = fst (couponAmount d (o_subtotal ord))\<rparr>"
    and db': "db' = db\<lparr>orders :=
                          map (\<lambda>r. if o_id r = orderId
                                    then r\<lparr>o_discount := o_discount r + u_discountAmount usage,
                                           o_totalAmount := o_totalAmount r - u_discountAmount usage\<rparr>
                                    else r) (orders db),
                        discountUsages := discountUsages db @ [usage],
                        discounts := incrementDiscountStats discountId (u_discountAmount usage) (discounts db)\<rparr>"
    by blast
  show "u_discountId usage = discountId" "u_userId usage = userId" "u_orderId usage = orderId"
    using usage by simp_all
  show "discountUsages db' = discountUsages db @ [usage]"
    using db' by simp
  show "\<exists>d. find (\<lambda>d. d_id d = discountId) (discounts db) = Some d
            \<and> find (\<lambda>d. d_id d = discountId) (discounts db')
                = Some (d\<lparr>d_usedCount := d_usedCount d + 1,
                          d_totalDiscounts := d_totalDiscounts d + u_discountAmount usage\<rparr>)"
    using d find_incrementDiscountStats [OF d] db' by simp
  show "\<exists>ord. find (\<lambda>r. o_id r = orderId) (orders db) = Some ord
            \<and> find (\<lambda>r. o_id r = orderId) (orders db')
                = Some (ord\<lparr>o_discount := o_discount ord + u_discountAmount usage,
                            o_totalAmount := o_totalAmount ord - u_discountAmount usage\<rparr>)"
    using ord find_order_update [OF ord] db' by simp
  have "usage \<in> set (discountUsages db')" "u_discountId usage = discountId \<and> u_orderId usage = orderId"
    using db' usage by simp_all
  then have "find (\<lambda>u. u_discountId u = discountId \<and> u_orderId u = orderId) (discountUsages db') \<noteq> None"
    unfolding find_None_iff by blast
  then show "\<forall>now' userId'. \<exists>e. applyDiscount db' now' orderId discountId userId' = Inl e"
    using applyDiscount_existing by blast
qed

lemma applyDiscount_example:
  "applyDiscount orderShop 5 ''o1'' ''d1'' ''u1'' = Inr (usage1, orderShopAfter)"
  "applyDiscount orderShopAfter 6 ''o1'' ''d1'' ''u2'' = Inl DiscountAlreadyApplied"
  "applyDiscount orderShopAfter 6 ''o1'' ''d1'' ''u1'' = Inl UserUsageLimitReached"
  by code_simp+

text \<open>
  One step of the recording loop of \<^verbatim>\<open>verifyAndCreateOrder\<close>, for a descriptor whose
  discount exists: one row more, \<^verbatim>\<open>usedCount\<close> raised by 1 and \<^verbatim>\<open>totalDiscounts\<close> by
  the descriptor's amount.
\<close>

lemma recordUsage_effect:
  assumes "descriptorDiscountId applied \<noteq> []"
    and "find (\<lambda>d. d_id d = descriptorDiscountId applied) (discounts db) = Some d0"
  shows "discountUsages (recordUsage userId orderId applied db)
        = discountUsages db @
            [\<lparr>u_discountId = descriptorDiscountId applied, u_userId = userId, u_orderId = orderId,
              u_discountAmount = descriptorAmount applied\<rparr>]"
    and "find (\<lambda>d. d_id d = descriptorDiscountId applied)
           (discounts (recordUsage userId orderId applied db))
          = Some (d0\<lparr>d_usedCount := d_usedCount d0 + 1,
                     d_totalDiscounts := d_totalDiscounts d0 + descriptorAmount applied\<rparr>)"
  using assms by (simp_all add: recordUsage_def find_incrementDiscountStats)

text \<open>
  Claim C9. A usage is recorded once for a discount and an order, and a second recording for
  the same pair is refused. \<^verbatim>\<open>applyDiscount\<close> looks for an existing usage of the pair; the
  recording loop of \<^verbatim>\<open>verifyAndCreateOrder\<close> does not. For two pieces of the product of
  scenario A and the code \<open>SITE10\<close>, \<^verbatim>\<open>calculateFinalAmountWithDiscounts\<close> lists the
  sitewide discount twice, as the coupon and as the product's best discount, and the loop
  writes two usage rows for the one order and raises \<^verbatim>\<open>usedCount\<close> from 0 to 2.
\<close>

theorem C9_same_discount_recorded_twice:
  "map_sum id (\<lambda>r. map descriptorDiscountId (fa_appliedDiscounts r))
     (calculateFinalAmountWithDiscounts scenarioA 5 fiveCart (Some ''Kerala'') (Some ''u1'')
        (Some ''SITE10''))
     = Inr [''d1'', ''d1'']
   \<and> map_sum id (\<lambda>r. discountUsages (recordDiscountUsages ''u1'' ''o2'' (fa_appliedDiscounts r) scenarioA))
       (calculateFinalAmountWithDiscounts scenarioA 5 fiveCart (Some ''Kerala'') (Some ''u1'')
          (Some ''SITE10''))
     = Inr [\<lparr>u_discountId = ''d1'', u_userId = ''u1'', u_orderId = ''o2'', u_discountAmount = 100\<rparr>,
            \<lparr>u_discountId = ''d1'', u_userId = ''u1'', u_orderId = ''o2'', u_discountAmount = 100\<rparr>]
   \<and> map_sum id
        (\<lambda>r. map (\<lambda>d. (d_id d, d_usedCount d, d_totalDiscounts d))
                (discounts (recordDiscountUsages ''u1'' ''o2'' (fa_appliedDiscounts r) scenarioA)))
       (calculateFinalAmountWithDiscounts scenarioA 5 fiveCart (Some ''Kerala'') (Some ''u1'')
          (Some ''SITE10''))
     = Inr [(''d1'', 2, 200)]
   \<and> map (\<lambda>d. (d_id d, d_usedCount d, d_totalDiscounts d)) (discounts scenarioA) = [(''d1'', 0, 0)]"
  by code_simp

end
